theory Spec2Isabelle
  imports Main "HOL-Library.AList" "HOL-Library.Char_ord" "HOL-Library.List_Lexorder"
begin

section \<open>The DNS migration runner (scripts/cloudflare-migration.sh)\<close>

text \<open>
  The script is a bash program run under \<^verbatim>\<open>set -euo pipefail\<close>. It talks to two HTTP
  interfaces through curl, reads their JSON replies through jq, and keeps one JSON file
  (the zone map) between invocations. The embedding has four layers:
  \<^item> text tools (word splitting, awk, cut, sed, command substitution);
  \<^item> JSON values and the jq filters the script uses;
  \<^item> the shell: the zone-map file, the requests sent so far, the lines printed, the
    counters of the record loop, and the exit of the script as a value;
  \<^item> the functions of the script, one definition each, under their own names.
  Non-ASCII characters of the script's messages (dashes, arrows, box drawing) are written
  in ASCII; colour escapes are dropped and the level of a message is kept as a constructor.
  Texts are byte strings: where bash or jq count characters (\<^verbatim>\<open>${content:0:60}\<close>, \<^verbatim>\<open>length\<close>
  of a string) the embedding counts bytes, and letter case is that of ASCII.
\<close>

subsection \<open>Text tools\<close>

definition newline :: char where
  "newline = CHR 0x0A"

definition blank :: "char \<Rightarrow> bool" where
  "blank c = (c = CHR '' '' \<or> c = CHR 0x09)"

definition ifs_space :: "char \<Rightarrow> bool" where
  "ifs_space c = (c = CHR '' '' \<or> c = CHR 0x09 \<or> c = CHR 0x0A)"

text \<open>Splitting at every separator character; a text without separator is one piece.\<close>

fun split_by :: "(char \<Rightarrow> bool) \<Rightarrow> string \<Rightarrow> string list" where
  "split_by sep [] = [[]]"
| "split_by sep (x # xs) =
     (if sep x then [] # split_by sep xs
      else (case split_by sep xs of [] \<Rightarrow> [[x]] | w # ws \<Rightarrow> (x # w) # ws))"

definition split_on :: "char \<Rightarrow> string \<Rightarrow> string list" where
  "split_on c = split_by (\<lambda>x. x = c)"

text \<open>Fields separated by runs of separators, leading and trailing ones ignored:
  awk's default field splitting, and the shell's word splitting under the default IFS.\<close>

definition words_by :: "(char \<Rightarrow> bool) \<Rightarrow> string \<Rightarrow> string list" where
  "words_by sep s = filter (\<lambda>w. w \<noteq> []) (split_by sep s)"

text \<open>The lines that \<^verbatim>\<open>echo "$v"\<close> feeds to a line-oriented tool.\<close>

definition echo_lines :: "string \<Rightarrow> string list" where
  "echo_lines v = split_on newline v"

text \<open>Command substitution: the lines printed, with all trailing newlines removed.\<close>

definition strip_newlines :: "string \<Rightarrow> string" where
  "strip_newlines s = rev (dropWhile (\<lambda>c. c = newline) (rev s))"

definition capture :: "string list \<Rightarrow> string" where
  "capture ls = strip_newlines (concat (map (\<lambda>l. l @ [newline]) ls))"

text \<open>\<^verbatim>\<open>awk '{print $k}'\<close> on one line: the k-th field, or nothing.\<close>

definition awk_print :: "nat \<Rightarrow> string \<Rightarrow> string" where
  "awk_print k line =
     (let fs = words_by blank line in if 1 \<le> k \<and> k \<le> length fs then fs ! (k - 1) else [])"

text \<open>\<^verbatim>\<open>cut -d. -fk\<close> on one line: a line without the delimiter is printed whole.\<close>

definition cut_dot :: "nat \<Rightarrow> string \<Rightarrow> string" where
  "cut_dot k line =
     (let ps = split_on (CHR ''.'') line
      in if length ps \<le> 1 then line
         else if 1 \<le> k \<and> k \<le> length ps then ps ! (k - 1) else [])"

text \<open>\<^verbatim>\<open>sed 's/\.$//'\<close> on one line.\<close>

definition sed_strip_dot :: "string \<Rightarrow> string" where
  "sed_strip_dot line = (if line \<noteq> [] \<and> last line = CHR ''.'' then butlast line else line)"

definition lower :: "char \<Rightarrow> char" where
  "lower c = (let n = (of_char c :: nat) in if 65 \<le> n \<and> n \<le> 90 then char_of (n + 32) else c)"

fun contains :: "string \<Rightarrow> string \<Rightarrow> bool" where
  "contains p [] = (p = [])"
| "contains p (x # xs) = (take (length p) (x # xs) = p \<or> contains p xs)"

text \<open>\<^verbatim>\<open>grep -qi p\<close> for a pattern without special characters.\<close>

definition grep_qi :: "string \<Rightarrow> string \<Rightarrow> bool" where
  "grep_qi p s = contains (map lower p) (map lower s)"

text \<open>Decimal numerals, as the shell and jq print natural numbers.\<close>

definition digit :: "nat \<Rightarrow> char" where
  "digit n = char_of (48 + n)"

function dec :: "nat \<Rightarrow> string" where
  "dec n = (if n < 10 then [digit n] else dec (n div 10) @ [digit (n mod 10)])"
  by pat_completeness auto
termination
  by (relation "measure (\<lambda>n. n)") auto

declare dec.simps [simp del]

definition hex_digit :: "nat \<Rightarrow> char" where
  "hex_digit n = (if n < 10 then char_of (48 + n) else char_of (87 + n))"

subsection \<open>JSON values and the jq filters of the script\<close>

text \<open>
  Numbers are integers (counts, priorities and TTLs are). An object is the list of its
  members in order, with distinct keys, as jq holds an object it has read.
\<close>

datatype json =
    JNull
  | JBool bool
  | JNum int
  | JStr string
  | JArr "json list"
  | JObj "(string \<times> json) list"

text \<open>A string as jq writes it inside JSON text (also \<^verbatim>\<open>jq -Rs '.'\<close> on raw text).\<close>

definition json_escape :: "char \<Rightarrow> string" where
  "json_escape c =
     (let n = (of_char c :: nat) in
      if c = CHR 0x22 then [CHR 0x5C, CHR 0x22]
      else if c = CHR 0x5C then [CHR 0x5C, CHR 0x5C]
      else if n = 8 then [CHR 0x5C, CHR ''b'']
      else if n = 9 then [CHR 0x5C, CHR ''t'']
      else if n = 10 then [CHR 0x5C, CHR ''n'']
      else if n = 12 then [CHR 0x5C, CHR ''f'']
      else if n = 13 then [CHR 0x5C, CHR ''r'']
      else if n < 32 \<or> n = 127
        then [CHR 0x5C, CHR ''u'', CHR ''0'', CHR ''0'', hex_digit (n div 16), hex_digit (n mod 16)]
      else [c])"

definition json_quote :: "string \<Rightarrow> string" where
  "json_quote s = [CHR 0x22] @ concat (map json_escape s) @ [CHR 0x22]"

definition dec_int :: "int \<Rightarrow> string" where
  "dec_int i = (if i < 0 then ''-'' @ dec (nat (- i)) else dec (nat i))"

definition commas :: "string list \<Rightarrow> string" where
  "commas xs = (case xs of [] \<Rightarrow> [] | y # ys \<Rightarrow> y @ concat (map (\<lambda>z. '','' @ z) ys))"

text \<open>JSON text in jq's compact layout (\<^verbatim>\<open>jq -c\<close>). Without \<^verbatim>\<open>-c\<close> jq adds line breaks
  and indentation inside arrays and objects; scalars print the same either way.\<close>

fun json_text :: "json \<Rightarrow> string" where
  "json_text JNull = ''null''"
| "json_text (JBool b) = (if b then ''true'' else ''false'')"
| "json_text (JNum n) = dec_int n"
| "json_text (JStr s) = json_quote s"
| "json_text (JArr xs) = ''['' @ commas (map json_text xs) @ '']''"
| "json_text (JObj kv) =
     ''{'' @ commas (map (\<lambda>p. json_quote (fst p) @ '':'' @ json_text (snd p)) kv) @ ''}''"

text \<open>\<^verbatim>\<open>jq -r\<close>: a string is printed as it is, anything else as JSON text.\<close>

definition raw :: "json \<Rightarrow> string" where
  "raw j = (case j of JStr s \<Rightarrow> s | _ \<Rightarrow> json_text j)"

definition truthy :: "json \<Rightarrow> bool" where
  "truthy j = (j \<noteq> JNull \<and> j \<noteq> JBool False)"

text \<open>
  The filters of the script: \<^verbatim>\<open>.\<close>, \<^verbatim>\<open>.k\<close>, \<^verbatim>\<open>.[n]\<close>, \<^verbatim>\<open>.[]\<close>, \<^verbatim>\<open>f | g\<close> (also written by
  juxtaposition, \<^verbatim>\<open>.a.b\<close>), \<^verbatim>\<open>f // g\<close>, a literal, \<^verbatim>\<open>empty\<close> and \<^verbatim>\<open>length\<close>.
  A filter yields the list of its outputs, or \<open>None\<close> when jq stops with an error.
\<close>

datatype jfilter =
    Id
  | Field string
  | Index nat
  | Iterate
  | Pipe jfilter jfilter
  | Alt jfilter jfilter
  | Lit json
  | Empty
  | Length

fun jq :: "jfilter \<Rightarrow> json \<Rightarrow> json list option" where
  "jq Id j = Some [j]"
| "jq (Field k) j =
     (case j of
        JObj kv \<Rightarrow> Some [case map_of kv k of Some v \<Rightarrow> v | None \<Rightarrow> JNull]
      | JNull \<Rightarrow> Some [JNull]
      | _ \<Rightarrow> None)"
| "jq (Index n) j =
     (case j of
        JArr xs \<Rightarrow> Some [if n < length xs then xs ! n else JNull]
      | JNull \<Rightarrow> Some [JNull]
      | _ \<Rightarrow> None)"
| "jq Iterate j =
     (case j of JArr xs \<Rightarrow> Some xs | JObj kv \<Rightarrow> Some (map snd kv) | _ \<Rightarrow> None)"
| "jq (Pipe f g) j =
     (case jq f j of
        None \<Rightarrow> None
      | Some xs \<Rightarrow> map_option concat (those (map (jq g) xs)))"
| "jq (Alt f g) j =
     (case jq f j of
        None \<Rightarrow> jq g j
      | Some xs \<Rightarrow> if filter truthy xs = [] then jq g j else Some (filter truthy xs))"
| "jq (Lit c) j = Some [c]"
| "jq Empty j = Some []"
| "jq Length j =
     (case j of
        JNull \<Rightarrow> Some [JNum 0]
      | JBool b \<Rightarrow> None
      | JNum n \<Rightarrow> Some [JNum (abs n)]
      | JStr s \<Rightarrow> Some [JNum (int (length s))]
      | JArr xs \<Rightarrow> Some [JNum (int (length xs))]
      | JObj kv \<Rightarrow> Some [JNum (int (length kv))])"

text \<open>The path \<^verbatim>\<open>.a.b.c\<close> as a left-nested pipe.\<close>

fun path :: "jfilter list \<Rightarrow> jfilter" where
  "path [] = Id"
| "path [f] = f"
| "path (f # g # fs) = Pipe f (path (g # fs))"

text \<open>
  What a command prints, as jq reads it: nothing but white space (jq then prints nothing
  and succeeds), text that is not JSON (jq fails), or one JSON document.
\<close>

datatype parsed = Blank | Invalid | Doc json

text \<open>The lines jq prints with a given printer, or its non-zero exit status.\<close>

definition jq_lines :: "(json \<Rightarrow> string) \<Rightarrow> jfilter \<Rightarrow> parsed \<Rightarrow> nat + string list" where
  "jq_lines pr f p =
     (case p of
        Blank \<Rightarrow> Inr []
      | Invalid \<Rightarrow> Inl 2
      | Doc j \<Rightarrow> (case jq f j of None \<Rightarrow> Inl 5 | Some os \<Rightarrow> Inr (map pr os)))"

text \<open>\<^verbatim>\<open>$(... | jq -r f)\<close>: the captured text, or jq's non-zero exit status.\<close>

definition jq_r :: "jfilter \<Rightarrow> parsed \<Rightarrow> nat + string" where
  "jq_r f p = (case jq_lines raw f p of Inl n \<Rightarrow> Inl n | Inr ls \<Rightarrow> Inr (capture ls))"

text \<open>The same without \<^verbatim>\<open>-r\<close>: strings are printed quoted.\<close>

definition jq_j :: "jfilter \<Rightarrow> parsed \<Rightarrow> nat + string" where
  "jq_j f p = (case jq_lines json_text f p of Inl n \<Rightarrow> Inl n | Inr ls \<Rightarrow> Inr (capture ls))"

text \<open>\<^verbatim>\<open>jq -e f\<close> as a condition: true when the last output is neither null nor false.\<close>

definition jq_e :: "jfilter \<Rightarrow> parsed \<Rightarrow> bool" where
  "jq_e f p =
     (case p of
        Doc j \<Rightarrow> (case jq f j of None \<Rightarrow> False | Some os \<Rightarrow> os \<noteq> [] \<and> truthy (last os))
      | _ \<Rightarrow> False)"

text \<open>The update \<^verbatim>\<open>.[$d] = v\<close>: on an object and on null; an error on anything else.\<close>

definition jq_assign :: "string \<Rightarrow> json \<Rightarrow> json \<Rightarrow> json option" where
  "jq_assign d v j =
     (case j of
        JObj kv \<Rightarrow> Some (JObj (AList.update d v kv))
      | JNull \<Rightarrow> Some (JObj [(d, v)])
      | _ \<Rightarrow> None)"

subsection \<open>The shell\<close>

text \<open>
  Everything outside the script is reached through a command whose answer the script
  reads: curl (method, URL, data of \<^verbatim>\<open>-d\<close>; \<^verbatim>\<open>curl -I\<close> is the method HEAD), dig, and the
  line that \<^verbatim>\<open>read\<close> takes from the operator. \<^verbatim>\<open>sleep\<close> has no answer and is left out.
\<close>

datatype request =
    Curl string string "string option"
  | Dig "string list"
  | ReadLine

text \<open>The answer: the exit status of the command, what it printed, and how jq reads that.\<close>

record reply =
  exit_code :: nat
  stdout :: string
  as_json :: parsed

datatype line =
    Info string
  | Warn string
  | Err string
  | Header string
  | Echo string
  | Show json
  | Stderr string

text \<open>
  The state of a run. \<open>zone_map_file\<close> is the content of \<^verbatim>\<open>.migration-state/zone-map.json\<close>,
  a JSON document (\<open>None\<close>: there is no such file). \<open>remote\<close> is the outside world: the
  answer to a request, given the requests made before it. \<open>count\<close>, \<open>created\<close> and
  \<open>skipped\<close> are the shell variables of these names.
\<close>

record shell =
  zone_map_file :: "json option"
  requests :: "request list"
  printed :: "line list"
  count :: nat
  created :: nat
  skipped :: nat
  remote :: "request list \<Rightarrow> request \<Rightarrow> reply"

text \<open>
  A command returns a value, or ends the script with an exit status (\<open>Inl\<close>): by \<^verbatim>\<open>exit\<close>,
  or under \<^verbatim>\<open>set -e\<close> when a command that is not guarded by \<^verbatim>\<open>||\<close>, \<^verbatim>\<open>&&\<close> or \<^verbatim>\<open>if\<close> fails.
\<close>

type_synonym 'a cmd = "shell \<Rightarrow> (nat + 'a) \<times> shell"

definition ret :: "'a \<Rightarrow> 'a cmd" where
  "ret x s = (Inr x, s)"

definition exit_with :: "nat \<Rightarrow> 'a cmd" where
  "exit_with n s = (Inl n, s)"

definition thn :: "'a cmd \<Rightarrow> ('a \<Rightarrow> 'b cmd) \<Rightarrow> 'b cmd" where
  "thn m f s = (case m s of (Inl n, s') \<Rightarrow> (Inl n, s') | (Inr x, s') \<Rightarrow> f x s')"

text \<open>An assignment \<^verbatim>\<open>v=$(...)\<close> whose command may fail: \<^verbatim>\<open>set -e\<close> ends the script.\<close>

definition must :: "nat + 'a \<Rightarrow> 'a cmd" where
  "must r = (case r of Inl n \<Rightarrow> exit_with n | Inr x \<Rightarrow> ret x)"

definition say :: "line \<Rightarrow> unit cmd" where
  "say l s = (Inr (), s\<lparr>printed := printed s @ [l]\<rparr>)"

definition run :: "request \<Rightarrow> reply cmd" where
  "run r s = (Inr (remote s (requests s) r), s\<lparr>requests := requests s @ [r]\<rparr>)"

fun for_each :: "('a \<Rightarrow> unit cmd) \<Rightarrow> 'a list \<Rightarrow> unit cmd" where
  "for_each body [] = ret ()"
| "for_each body (x # xs) = thn (body x) (\<lambda>_. for_each body xs)"

text \<open>The requests a command makes when started in \<open>s\<close>, and the state it leaves.\<close>

definition after :: "'a cmd \<Rightarrow> shell \<Rightarrow> shell" where
  "after c s = snd (c s)"

definition issued :: "'a cmd \<Rightarrow> shell \<Rightarrow> request list" where
  "issued c s = drop (length (requests s)) (requests (after c s))"

subsection \<open>Configuration and helpers (lines 18-83)\<close>

definition CF_ACCOUNT :: string where
  "CF_ACCOUNT = ''db45bb0a2f77daf6b206a366a124165d''"

definition DS_ACCOUNT :: string where
  "DS_ACCOUNT = ''5046''"

definition CF_API :: string where
  "CF_API = ''https://api.cloudflare.com/client/v4''"

definition DS_API :: string where
  "DS_API = ''https://api.dnsimple.com/v2/'' @ DS_ACCOUNT"

definition DOMAINS :: "string list" where
  "DOMAINS = [''eewby.com'', ''ellastrickland.com'', ''idlefusion.com'',
              ''katiestrickland.com'', ''mstrick.com'']"

definition ZONE_MAP_FILE :: string where
  "ZONE_MAP_FILE = ''.migration-state/zone-map.json''"

definition info :: "string \<Rightarrow> unit cmd" where
  "info m = say (Info m)"

definition warn :: "string \<Rightarrow> unit cmd" where
  "warn m = say (Warn m)"

definition err :: "string \<Rightarrow> unit cmd" where
  "err m = say (Err m)"

definition header :: "string \<Rightarrow> unit cmd" where
  "header m = say (Header m)"

definition echo :: "string \<Rightarrow> unit cmd" where
  "echo m = say (Echo m)"

text \<open>\<^verbatim>\<open>read\<close> fails at the end of input, which ends the script.\<close>

definition confirm :: "string \<Rightarrow> unit cmd" where
  "confirm m =
     thn (echo m) (\<lambda>_.
     thn (run ReadLine) (\<lambda>r.
     if exit_code r \<noteq> 0 then exit_with (exit_code r) else echo []))"

definition cf :: "string \<Rightarrow> string \<Rightarrow> string option \<Rightarrow> reply cmd" where
  "cf method pth data = run (Curl method (CF_API @ pth) data)"

definition ds :: "string \<Rightarrow> string \<Rightarrow> string option \<Rightarrow> reply cmd" where
  "ds method pth data = run (Curl method (DS_API @ pth) data)"

text \<open>A call whose failure is not guarded: \<^verbatim>\<open>v=$(cf ...)\<close>.\<close>

definition checked :: "reply cmd \<Rightarrow> reply cmd" where
  "checked c = thn c (\<lambda>r. if exit_code r \<noteq> 0 then exit_with (exit_code r) else ret r)"

text \<open>jq on the state file: it fails with status 2 when the file does not exist.\<close>

definition jq_file :: "jfilter \<Rightarrow> string cmd" where
  "jq_file f s =
     (case zone_map_file s of
        None \<Rightarrow> exit_with 2 s
      | Some j \<Rightarrow> must (jq_r f (Doc j)) s)"

definition zone_id_for :: "string \<Rightarrow> string cmd" where
  "zone_id_for domain = jq_file (Alt (path [Field domain, Field ''zone_id'']) Empty)"

definition ns_for :: "string \<Rightarrow> string cmd" where
  "ns_for domain = jq_file (path [Field domain, Field ''nameservers'', Iterate])"

subsection \<open>Step 2: add zones (lines 87-153)\<close>

definition zone_entry :: "string \<Rightarrow> string \<Rightarrow> string \<Rightarrow> json" where
  "zone_entry z n1 n2 = JObj [(''zone_id'', JStr z), (''nameservers'', JArr [JStr n1, JStr n2])]"

text \<open>Lines 119-122 (and 138-141, 624-627): the entry is written through a temporary.\<close>

definition save_zone :: "string \<Rightarrow> string \<Rightarrow> string \<Rightarrow> string \<Rightarrow> unit cmd" where
  "save_zone domain z n1 n2 s =
     (case zone_map_file s of
        None \<Rightarrow> exit_with 2 s
      | Some j \<Rightarrow>
          (case jq_assign domain (zone_entry z n1 n2) j of
             None \<Rightarrow> exit_with 5 s
           | Some j' \<Rightarrow> (Inr (), s\<lparr>zone_map_file := Some j'\<rparr>)))"

definition zone_request_body :: "string \<Rightarrow> string" where
  \<open>zone_request_body domain =
     ''{"name":"'' @ domain @ ''","account":{"id":"'' @ CF_ACCOUNT @ ''"},"type":"full"}''\<close>


text \<open>The body of the loop over the domains, lines 97-147.\<close>

definition add_zone :: "string \<Rightarrow> unit cmd" where
  "add_zone domain =
     thn (zone_id_for domain) (\<lambda>existing_id.
     if existing_id \<noteq> [] then
       info (domain @ '' - already added (zone: '' @ existing_id @ '')'')
     else
       thn (echo (''  Adding '' @ domain @ ''... '')) (\<lambda>_.
       thn (cf ''POST'' ''/zones'' (Some (zone_request_body domain))) (\<lambda>result.
       thn (must (jq_r (Field ''success'') (as_json result))) (\<lambda>success.
       if success = ''true'' then
         thn (must (jq_r (path [Field ''result'', Field ''id'']) (as_json result))) (\<lambda>zone_id.
         thn (must (jq_r (path [Field ''result'', Field ''name_servers'', Index 0])
                (as_json result))) (\<lambda>ns1.
         thn (must (jq_r (path [Field ''result'', Field ''name_servers'', Index 1])
                (as_json result))) (\<lambda>ns2.
         thn (save_zone domain zone_id ns1 ns2) (\<lambda>_.
         info (domain @ '' - zone: '' @ zone_id @ '', NS: '' @ ns1 @ '', '' @ ns2)))))
       else
         thn (must (jq_r (Alt (path [Field ''errors'', Index 0, Field ''message''])
                (Lit (JStr ''unknown''))) (as_json result))) (\<lambda>error_msg.
         if grep_qi ''already exists'' error_msg then
           thn (echo ''(exists, fetching)... '') (\<lambda>_.
           thn (checked (cf ''GET'' (''/zones?name='' @ domain) None)) (\<lambda>result.
           thn (must (jq_r (path [Field ''result'', Index 0, Field ''id''])
                  (as_json result))) (\<lambda>zone_id.
           thn (must (jq_r (path [Field ''result'', Index 0, Field ''name_servers'', Index 0])
                  (as_json result))) (\<lambda>ns1.
           thn (must (jq_r (path [Field ''result'', Index 0, Field ''name_servers'', Index 1])
                  (as_json result))) (\<lambda>ns2.
           thn (save_zone domain zone_id ns1 ns2) (\<lambda>_.
           info (domain @ '' - zone: '' @ zone_id @ '', NS: '' @ ns1 @ '', '' @ ns2)))))))
         else
           err (domain @ '' - '' @ error_msg))))))"

text \<open>Lines 92-94: the file is created, holding the empty object, when it is missing.\<close>

definition init_zone_map :: "unit cmd" where
  "init_zone_map s =
     (case zone_map_file s of
        None \<Rightarrow> (Inr (), s\<lparr>zone_map_file := Some (JObj [])\<rparr>)
      | Some j \<Rightarrow> (Inr (), s))"

text \<open>\<^verbatim>\<open>jq '.' "$ZONE_MAP_FILE"\<close>: the file is printed.\<close>

definition show_zone_map :: "unit cmd" where
  "show_zone_map s =
     (case zone_map_file s of
        None \<Rightarrow> exit_with 2 s
      | Some j \<Rightarrow> say (Show j) s)"

definition step_add_zones :: "unit cmd" where
  "step_add_zones =
     thn (header ''Step 2: Add zones to Cloudflare'') (\<lambda>_.
     thn init_zone_map (\<lambda>_.
     thn (for_each add_zone DOMAINS) (\<lambda>_.
     thn (echo []) (\<lambda>_.
     thn (info (''Zone map saved to '' @ ZONE_MAP_FILE)) (\<lambda>_.
     show_zone_map)))))"

subsection \<open>Step 3: create records (lines 158-323)\<close>

text \<open>
  \<^verbatim>\<open>((v++))\<close> adds one to the variable; its value is the old value of \<open>v\<close>, and the exit
  status of \<^verbatim>\<open>((expression))\<close> is 1 when the value of the expression is 0. As a command of
  its own it then ends the script under \<^verbatim>\<open>set -e\<close> (which covers compound commands since
  bash 4.1); in \<^verbatim>\<open>c && ((v++)) || true\<close> the status is discarded.
\<close>

definition arith_status :: "nat \<Rightarrow> nat + unit" where
  "arith_status old = (if old = 0 then Inl 1 else Inr ())"

definition incr_count :: "unit cmd" where
  "incr_count s = (arith_status (count s), s\<lparr>count := count s + 1\<rparr>)"

definition incr_skipped :: "unit cmd" where
  "incr_skipped s = (arith_status (skipped s), s\<lparr>skipped := skipped s + 1\<rparr>)"

text \<open>\<^verbatim>\<open>c && ((created++)) || true\<close>, given whether \<open>c\<close> succeeded.\<close>

definition and_incr_created :: "bool \<Rightarrow> unit cmd" where
  "and_incr_created ok s = (Inr (), if ok then s\<lparr>created := created s + 1\<rparr> else s)"

text \<open>The body of the loop of \<open>clear_zone_records\<close>, lines 167-168.\<close>

definition clear_record :: "string \<Rightarrow> string \<Rightarrow> unit cmd" where
  "clear_record zone_id rid =
     thn (cf ''DELETE'' (''/zones/'' @ zone_id @ ''/dns_records/'' @ rid) None) (\<lambda>_.
     incr_count)"

text \<open>\<^verbatim>\<open>for id in $ids\<close> splits the text at white space (file-name patterns in it are not
  expanded here: record identifiers are hexadecimal).\<close>

definition clear_zone_records :: "string \<Rightarrow> string \<Rightarrow> unit cmd" where
  "clear_zone_records zone_id domain =
     thn (checked (cf ''GET'' (''/zones/'' @ zone_id @ ''/dns_records?per_page=100'') None))
       (\<lambda>records.
     thn (must (jq_r (path [Field ''result'', Iterate, Field ''id'']) (as_json records))) (\<lambda>ids.
     thn (\<lambda>s. (Inr (), s\<lparr>count := 0\<rparr>)) (\<lambda>_.
     thn (for_each (clear_record zone_id) (words_by ifs_space ids)) (\<lambda>_.
     (\<lambda>s. if count s > 0
        then warn (domain @ '' - cleared '' @ dec (count s) @ '' auto-imported records'') s
        else ret () s)))))"

text \<open>Inside \<^verbatim>\<open>create_cf_record ... && ...\<close> a failing jq does not end the script: the
  variable is then empty.\<close>

definition lenient :: "nat + string \<Rightarrow> string" where
  "lenient r = (case r of Inl n \<Rightarrow> [] | Inr v \<Rightarrow> v)"

definition create_cf_record :: "string \<Rightarrow> string \<Rightarrow> bool cmd" where
  "create_cf_record zone_id body =
     thn (cf ''POST'' (''/zones/'' @ zone_id @ ''/dns_records'') (Some body)) (\<lambda>result.
     if lenient (jq_r (Field ''success'') (as_json result)) \<noteq> ''true'' then
       thn (err (''    Failed: '' @
              lenient (jq_r (Alt (path [Field ''errors'', Index 0, Field ''message''])
                (Lit (JStr ''unknown''))) (as_json result)))) (\<lambda>_.
       ret False)
     else ret True)"

text \<open>\<^verbatim>\<open>${v:-d}\<close>\<close>

definition default_to :: "string \<Rightarrow> string \<Rightarrow> string" where
  "default_to d v = (if v = [] then d else v)"

text \<open>The request bodies, as the script writes them by interpolation.\<close>

definition plain_body :: "string \<Rightarrow> string \<Rightarrow> string \<Rightarrow> string" where
  \<open>plain_body rtype cf_name content =
     ''{"type":"'' @ rtype @ ''","name":"'' @ cf_name @ ''","content":"'' @ content @
     ''","ttl":1,"proxied":false}''\<close>

definition mx_body :: "string \<Rightarrow> string \<Rightarrow> string \<Rightarrow> string" where
  \<open>mx_body cf_name content priority =
     ''{"type":"MX","name":"'' @ cf_name @ ''","content":"'' @ content @
     ''","ttl":1,"priority":'' @ default_to ''10'' priority @ ''}''\<close>

definition txt_body :: "string \<Rightarrow> string \<Rightarrow> string" where
  \<open>txt_body cf_name json_content =
     ''{"type":"TXT","name":"'' @ cf_name @ ''","content":'' @ json_content @ '',"ttl":1}''\<close>

definition srv_body ::
  "string \<Rightarrow> string \<Rightarrow> string \<Rightarrow> string \<Rightarrow> string \<Rightarrow> string \<Rightarrow> string \<Rightarrow> string \<Rightarrow> string" where
  \<open>srv_body name domain service proto priority weight port target =
     ''{"type":"SRV","name":"'' @ name @ ''.'' @ domain @
     ''","data":{"service":"'' @ service @ ''","proto":"'' @ proto @
     ''","name":"'' @ domain @ ''","priority":'' @ default_to ''0'' priority @
     '',"weight":'' @ weight @ '',"port":'' @ port @ '',"target":"'' @ target @ ''"}}''\<close>

definition url_body :: "string \<Rightarrow> string" where
  \<open>url_body cf_name =
     ''{"type":"A","name":"'' @ cf_name @ ''","content":"192.0.2.1","ttl":1,"proxied":true}''\<close>

text \<open>Lines 286-288 and 292-293: \<^verbatim>\<open>echo "$v" | awk '{print $k}'\<close> and \<^verbatim>\<open>echo "$v" | cut -d. -fk\<close>.\<close>

definition awk_field :: "nat \<Rightarrow> string \<Rightarrow> string" where
  "awk_field k v = capture (map (awk_print k) (echo_lines v))"

definition srv_target :: "string \<Rightarrow> string" where
  "srv_target content = capture (map sed_strip_dot (map (awk_print 3) (echo_lines content)))"

definition cut_field :: "nat \<Rightarrow> string \<Rightarrow> string" where
  "cut_field k v = capture (map (cut_dot k) (echo_lines v))"

text \<open>The \<^verbatim>\<open>case "$type"\<close> statement, lines 243-317.\<close>

definition record_case ::
  "string \<Rightarrow> string \<Rightarrow> string \<Rightarrow> string \<Rightarrow> string \<Rightarrow> string \<Rightarrow> string \<Rightarrow> unit cmd" where
  "record_case zone_id domain rtype name cf_name content priority =
     (if rtype = ''A'' \<or> rtype = ''AAAA'' then
        thn (info (''  '' @ rtype @ '' '' @ cf_name @ '' -> '' @ content)) (\<lambda>_.
        thn (create_cf_record zone_id (plain_body rtype cf_name content)) and_incr_created)
      else if rtype = ''CNAME'' then
        thn (info (''  CNAME '' @ cf_name @ '' -> '' @ content)) (\<lambda>_.
        thn (create_cf_record zone_id (plain_body ''CNAME'' cf_name content)) and_incr_created)
      else if rtype = ''ALIAS'' then
        thn (info (''  CNAME '' @ cf_name @ '' -> '' @ content @ '' (from ALIAS, DNS-only)'')) (\<lambda>_.
        thn (create_cf_record zone_id (plain_body ''CNAME'' cf_name content)) and_incr_created)
      else if rtype = ''MX'' then
        thn (info (''  MX '' @ cf_name @ '' -> '' @ content @ '' (pri: '' @ priority @ '')'')) (\<lambda>_.
        thn (create_cf_record zone_id (mx_body cf_name content priority)) and_incr_created)
      else if rtype = ''TXT'' then
        thn (info (''  TXT '' @ cf_name @ '' -> '' @ take 60 content @ ''...'')) (\<lambda>_.
        thn (create_cf_record zone_id (txt_body cf_name (json_quote content))) and_incr_created)
      else if rtype = ''SRV'' then
        (let weight = awk_field 1 content;
             port = awk_field 2 content;
             target = srv_target content;
             service = cut_field 1 name;
             proto = cut_field 2 name
         in
         thn (info (''  SRV '' @ name @ '' -> '' @ target @ '':'' @ port @
                '' (pri: '' @ default_to ''0'' priority @ '', w: '' @ weight @ '')'')) (\<lambda>_.
         thn (create_cf_record zone_id
                (srv_body name domain service proto priority weight port target))
           and_incr_created))
      else if rtype = ''URL'' then
        thn (warn (''  URL '' @ cf_name @ '' -> '' @ content @ '' (redirect rule needed)'')) (\<lambda>_.
        thn (if cf_name \<noteq> ''@'' then
               thn (info (''    Creating proxied A record: '' @ cf_name @ '' -> 192.0.2.1'')) (\<lambda>_.
               thn (create_cf_record zone_id (url_body cf_name)) and_incr_created)
             else ret ()) (\<lambda>_.
        incr_skipped))
      else
        thn (warn (''  Skipping unknown type: '' @ rtype @ '' '' @ cf_name @ '' -> '' @ content))
          (\<lambda>_.
        incr_skipped))"

text \<open>The body of the loop over the source records, lines 222-317. A record is one line
  of \<^verbatim>\<open>jq -c '.data[]'\<close>, read again by jq for each field.\<close>

definition process_record :: "string \<Rightarrow> string \<Rightarrow> json \<Rightarrow> unit cmd" where
  "process_record zone_id domain record =
     thn (must (jq_r (Field ''type'') (Doc record))) (\<lambda>rtype.
     thn (must (jq_r (Field ''name'') (Doc record))) (\<lambda>name.
     thn (must (jq_r (Field ''content'') (Doc record))) (\<lambda>content.
     thn (must (jq_r (Field ''ttl'') (Doc record))) (\<lambda>ttl.
     thn (must (jq_r (Alt (Field ''priority'') Empty) (Doc record))) (\<lambda>priority.
     thn (must (jq_r (Field ''system_record'') (Doc record))) (\<lambda>system_record.
     if system_record = ''true'' then ret ()
     else
       record_case zone_id domain rtype name (if name = [] then ''@'' else name)
         content priority))))))"

text \<open>The lines of \<^verbatim>\<open><(echo "$ds_records" | jq -c '.data[]')\<close>; a failure of jq inside the
  process substitution is not seen by the script.\<close>

definition data_records :: "parsed \<Rightarrow> json list" where
  "data_records p =
     (case p of
        Doc j \<Rightarrow> (case jq (path [Field ''data'', Iterate]) j of None \<Rightarrow> [] | Some rs \<Rightarrow> rs)
      | _ \<Rightarrow> [])"

text \<open>The body of the loop over the domains, lines 198-321.\<close>

definition create_records_for :: "string \<Rightarrow> unit cmd" where
  "create_records_for domain =
     thn (zone_id_for domain) (\<lambda>zone_id.
     if zone_id = [] then err (domain @ '' - no zone ID found, run add-zones first'')
     else
       thn (echo (domain @ '' (zone: '' @ zone_id @ '')'')) (\<lambda>_.
       thn (clear_zone_records zone_id domain) (\<lambda>_.
       thn (checked (ds ''GET'' (''/zones/'' @ domain @ ''/records?per_page=100'') None))
         (\<lambda>ds_records.
       thn (must (jq_j (path [Field ''data'', Length]) (as_json ds_records))) (\<lambda>total.
       thn (info (''  Fetched '' @ total @ '' records from DNSimple'')) (\<lambda>_.
       thn (\<lambda>s. (Inr (), s\<lparr>created := 0, skipped := 0\<rparr>)) (\<lambda>_.
       thn (for_each (process_record zone_id domain) (data_records (as_json ds_records))) (\<lambda>_.
       thn (\<lambda>s. info (''  '' @ domain @ '': '' @ dec (created s) @ '' created, '' @
                   dec (skipped s) @ '' skipped'') s) (\<lambda>_.
       echo [])))))))))"

definition step_create_records :: "unit cmd" where
  "step_create_records =
     thn (header ''Step 3: Create DNS records from DNSimple'') (\<lambda>_.
     for_each create_records_for DOMAINS)"

subsection \<open>Step 4: the redirect rule (lines 327-371)\<close>

definition join_lines :: "string list \<Rightarrow> string" where
  "join_lines ls = (case ls of [] \<Rightarrow> [] | y # ys \<Rightarrow> y @ concat (map (\<lambda>z. newline # z) ys))"

definition redirect_ruleset :: string where
  \<open>redirect_ruleset = join_lines
     [''{'',
      ''    "name": "Redirects",'',
      ''    "kind": "zone",'',
      ''    "phase": "http_request_dynamic_redirect",'',
      ''    "rules": [{'',
      ''      "expression": "(http.host eq '' @ [CHR 0x5C, CHR 0x22] @ ''hire.mstrick.com'' @
        [CHR 0x5C, CHR 0x22] @ '')",'',
      ''      "description": "hire.mstrick.com -> mstrick.com/hire",'',
      ''      "action": "redirect",'',
      ''      "action_parameters": {'',
      ''        "from_value": {'',
      ''          "status_code": 301,'',
      ''          "target_url": {'',
      ''            "value": "https://mstrick.com/hire"'',
      ''          },'',
      ''          "preserve_query_string": false'',
      ''        }'',
      ''      }'',
      ''    }]'',
      ''  }'']\<close>

text \<open>A plain \<^verbatim>\<open>echo "$result" | jq f\<close>: the outputs are printed; a failure of jq ends the
  script.\<close>

definition jq_show :: "jfilter \<Rightarrow> parsed \<Rightarrow> unit cmd" where
  "jq_show f p =
     (case p of
        Blank \<Rightarrow> ret ()
      | Invalid \<Rightarrow> exit_with 2
      | Doc j \<Rightarrow> (case jq f j of None \<Rightarrow> exit_with 5 | Some os \<Rightarrow> for_each (\<lambda>v. say (Show v)) os))"

text \<open>\<^verbatim>\<open>return 1\<close> is the status of the function, which is called unguarded everywhere:
  the script ends with it.\<close>

definition step_create_redirects :: "unit cmd" where
  "step_create_redirects =
     thn (header ''Step 4: Create redirect rules'') (\<lambda>_.
     thn (zone_id_for ''mstrick.com'') (\<lambda>zone_id.
     if zone_id = [] then
       thn (err ''mstrick.com zone ID not found'') (\<lambda>_. exit_with 1)
     else
       thn (info ''Creating redirect: hire.mstrick.com -> https://mstrick.com/hire'') (\<lambda>_.
       thn (cf ''POST'' (''/zones/'' @ zone_id @ ''/rulesets'') (Some redirect_ruleset)) (\<lambda>result.
       thn (must (jq_r (Field ''success'') (as_json result))) (\<lambda>success.
       if success = ''true'' then info ''Redirect rule created''
       else
         thn (must (jq_r (Alt (path [Field ''errors'', Index 0, Field ''message''])
                (Lit (JStr ''unknown''))) (as_json result))) (\<lambda>error_msg.
         thn (err (''Failed to create redirect: '' @ error_msg)) (\<lambda>_.
         jq_show (Field ''errors'') (as_json result))))))))"

subsection \<open>Step 5: switch the nameservers (lines 375-410)\<close>

text \<open>The body of the loop over the domains, lines 383-408.\<close>

definition switch_nameservers_for :: "string \<Rightarrow> unit cmd" where
  \<open>switch_nameservers_for domain =
     thn (jq_file (path [Field domain, Field ''nameservers'', Index 0])) (\<lambda>ns1.
     thn (jq_file (path [Field domain, Field ''nameservers'', Index 1])) (\<lambda>ns2.
     if ns1 = [] \<or> ns1 = ''null'' then err (domain @ '' - no nameservers found in state'')
     else
       thn (confirm (''Switch '' @ domain @ '' to Cloudflare NS? ('' @ ns1 @ '', '' @ ns2 @ '')''))
         (\<lambda>_.
       thn (echo (''  Updating '' @ domain @ ''... '')) (\<lambda>_.
       thn (ds ''PUT'' (''/registrar/domains/'' @ domain @ ''/delegation'')
              (Some (''["'' @ ns1 @ ''","'' @ ns2 @ ''"]''))) (\<lambda>result.
       if jq_e (Field ''data'') (as_json result) then
         thn (info (domain @ '' - nameservers updated'')) (\<lambda>_.
         jq_show (Field ''data'') (as_json result))
       else
         thn (err (domain @ '' - failed to update nameservers'')) (\<lambda>_.
         echo (stdout result)))))))\<close>

definition step_switch_nameservers :: "unit cmd" where
  "step_switch_nameservers =
     thn (header ''Step 5: Switch nameservers at DNSimple'') (\<lambda>_.
     thn (echo ''WARNING: This changes live DNS for all domains.'') (\<lambda>_.
     thn (echo ''DNS propagation can take 1-48 hours. Services may be briefly unreachable.'')
       (\<lambda>_.
     thn (echo []) (\<lambda>_.
     for_each switch_nameservers_for DOMAINS))))"

subsection \<open>Step 6: verify (lines 414-494)\<close>

text \<open>\<^verbatim>\<open>v=$(c | jq -r f)\<close> under \<^verbatim>\<open>pipefail\<close>: the status is that of the last command of
  the pipeline that failed.\<close>

definition piped_jq :: "reply cmd \<Rightarrow> jfilter \<Rightarrow> string cmd" where
  "piped_jq c f =
     thn c (\<lambda>r.
     case jq_r f (as_json r) of
       Inl n \<Rightarrow> exit_with n
     | Inr v \<Rightarrow> if exit_code r \<noteq> 0 then exit_with (exit_code r) else ret v)"

text \<open>The lines of a text: a last line without newline counts, as for grep and sort.\<close>

definition text_lines :: "string \<Rightarrow> string list" where
  "text_lines t = (let ps = split_on newline t in if last ps = [] then butlast ps else ps)"

text \<open>The lines that \<^verbatim>\<open>while read -r line\<close> hands to its body: those ended by a newline,
  without leading and trailing white space.\<close>

definition trim :: "string \<Rightarrow> string" where
  "trim l = rev (dropWhile ifs_space (rev (dropWhile ifs_space l)))"

definition read_lines :: "string \<Rightarrow> string list" where
  "read_lines t = map trim (butlast (split_on newline t))"

definition tr_newline_space :: "string \<Rightarrow> string" where
  "tr_newline_space t = map (\<lambda>c. if c = newline then CHR '' '' else c) t"

definition verify_zone :: "string \<Rightarrow> unit cmd" where
  "verify_zone domain =
     thn (zone_id_for domain) (\<lambda>zone_id.
     if zone_id = [] then err (''  '' @ domain @ '' - no zone ID'')
     else
       thn (piped_jq (cf ''GET'' (''/zones/'' @ zone_id) None)
              (path [Field ''result'', Field ''status''])) (\<lambda>status.
       if status = ''active'' then info (''  '' @ domain @ '': '' @ status)
       else warn (''  '' @ domain @ '': '' @ status @ '' (may need time to propagate)'')))"

definition dig_domain :: "string \<Rightarrow> unit cmd" where
  "dig_domain domain =
     thn (echo (''  '' @ domain @ '': '')) (\<lambda>_.
     thn (run (Dig [''+short'', domain])) (\<lambda>r.
     thn (echo (tr_newline_space (stdout r))) (\<lambda>_.
     if exit_code r \<noteq> 0 then exit_with (exit_code r) else echo [])))"

definition urls :: "string list" where
  "urls = [''https://idlefusion.com'', ''https://www.idlefusion.com'',
           ''https://ellastrickland.com'', ''https://mstrick.com'',
           ''https://katiestrickland.com'', ''https://gather25.idlefusion.com'',
           ''https://runeasy.app'']"

text \<open>Line 462: \<^verbatim>\<open>curl -w "%{http_code}" ... || echo "TIMEOUT"\<close>.\<close>

definition https_check :: "string \<Rightarrow> unit cmd" where
  "https_check url =
     thn (echo (''  '' @ url @ '': '')) (\<lambda>_.
     thn (run (Curl ''GET'' url None)) (\<lambda>r.
     (let code = strip_newlines
            (stdout r @ (if exit_code r \<noteq> 0 then ''TIMEOUT'' @ [newline] else []))
      in if code = ''200'' \<or> code = ''301'' \<or> code = ''302'' then info code else warn code)))"

text \<open>Line 474: \<^verbatim>\<open>curl -sI ... | grep -i '^location:' | tr -d '\r'\<close>; grep has status 1 when
  no line matches.\<close>

definition redirect_check :: "unit cmd" where
  "redirect_check =
     thn (run (Curl ''HEAD'' ''https://hire.mstrick.com'' None)) (\<lambda>r.
     (let matches = filter (\<lambda>l. map lower (take 9 l) = ''location:'') (text_lines (stdout r))
      in if matches = [] then exit_with 1
         else if exit_code r \<noteq> 0 then exit_with (exit_code r)
         else
           (let location = capture (map (filter (\<lambda>c. c \<noteq> CHR 0x0D)) matches)
            in if location \<noteq> [] then info location
               else warn ''no redirect (may need proxy to activate)'')))"

definition mx_records :: "unit cmd" where
  "mx_records =
     thn (run (Dig [''MX'', ''idlefusion.com'', ''+short''])) (\<lambda>r.
     thn (for_each (\<lambda>l. echo (''  '' @ l)) (read_lines (stdout r))) (\<lambda>_.
     if exit_code r \<noteq> 0 then exit_with (exit_code r) else ret ()))"

text \<open>Line 491: \<^verbatim>\<open>dig NS "$domain" +short | sort | tr '\n' ' '\<close> (byte order).\<close>

definition ns_check :: "string \<Rightarrow> unit cmd" where
  "ns_check domain =
     thn (echo (''  '' @ domain @ '': '')) (\<lambda>_.
     thn (run (Dig [''NS'', domain, ''+short''])) (\<lambda>r.
     thn (echo (concat (map (\<lambda>l. l @ '' '') (sort (text_lines (stdout r)))))) (\<lambda>_.
     if exit_code r \<noteq> 0 then exit_with (exit_code r) else echo [])))"

definition step_verify :: "unit cmd" where
  "step_verify =
     thn (header ''Step 6: Verify DNS migration'') (\<lambda>_.
     thn (echo ''Zone activation:'') (\<lambda>_.
     thn (for_each verify_zone DOMAINS) (\<lambda>_.
     thn (piped_jq (cf ''GET'' ''/zones/f922dcb27d4db9d1fa2809a5c8b72a50'' None)
            (path [Field ''result'', Field ''status''])) (\<lambda>runeasy_status.
     thn (info (''  runeasy.app: '' @ runeasy_status)) (\<lambda>_.
     thn (echo (newline # ''DNS resolution (dig):'')) (\<lambda>_.
     thn (for_each dig_domain DOMAINS) (\<lambda>_.
     thn (echo (newline # ''HTTPS checks:'')) (\<lambda>_.
     thn (for_each https_check urls) (\<lambda>_.
     thn (echo (newline # ''Redirect checks:'')) (\<lambda>_.
     thn (echo ''  hire.mstrick.com: '') (\<lambda>_.
     thn redirect_check (\<lambda>_.
     thn (echo (newline # ''MX records (idlefusion.com):'')) (\<lambda>_.
     thn mx_records (\<lambda>_.
     thn (echo (newline # ''Current nameservers:'')) (\<lambda>_.
     for_each ns_check DOMAINS)))))))))))))))"

subsection \<open>Step 7: unlock (lines 498-537)\<close>

definition unlock_domain :: "string \<Rightarrow> unit cmd" where
  "unlock_domain domain =
     thn (confirm (''Unlock '' @ domain @ '' for transfer?'')) (\<lambda>_.
     thn (echo (''  Unlocking '' @ domain @ ''... '')) (\<lambda>_.
     thn (checked (run (Curl ''POST''
            (DS_API @ ''/registrar/domains/'' @ domain @ ''/authorize_transfer_out'') None)))
       (\<lambda>r.
     (let http_code = strip_newlines (stdout r)
      in if http_code = ''204'' then info (domain @ '' unlocked - check email for auth code'')
         else err (domain @ '' - HTTP '' @ http_code)))))"

definition step_unlock_domains :: "unit cmd" where
  "step_unlock_domains =
     thn (header ''Step 7: Unlock domains for transfer out'') (\<lambda>_.
     thn (for_each echo
            [''This will unlock each domain and email the auth/EPP code'',
             ''to the registrant contact (matthew@idlefusion.com).'',
             [],
             ''After receiving the codes, go to:'',
             ''  Cloudflare Dashboard -> Registrar -> Transfer Domains'',
             []]) (\<lambda>_.
     thn (for_each unlock_domain (DOMAINS @ [''runeasy.app''])) (\<lambda>_.
     thn (echo []) (\<lambda>_.
     thn (info ''All domains processed.'') (\<lambda>_.
     thn (for_each echo
            [[],
             ''Next steps:'',
             ''  1. Check matthew@idlefusion.com for auth/EPP codes'',
             ''  2. Go to Cloudflare Dashboard -> Registrar -> Transfer Domains'',
             ''  3. Enter auth code for each domain and confirm payment'',
             ''  4. Transfers take 5-7 days to complete'',
             []]) (\<lambda>_.
     thn (warn ''Note: runeasy.app (registered 2026-01-26) must wait until ~March 27'') (\<lambda>_.
     warn ''for 60-day transfer eligibility.'')))))))"

subsection \<open>Token validation, the whole run and the entry point (lines 541-640)\<close>

text \<open>\<^verbatim>\<open>v=$(c | jq -r f 2>/dev/null || echo "failed")\<close>: the word is added to what jq
  printed when the pipeline failed.\<close>

definition or_failed :: "reply \<Rightarrow> jfilter \<Rightarrow> string" where
  "or_failed r f =
     (case jq_lines raw f (as_json r) of
        Inl n \<Rightarrow> ''failed''
      | Inr ls \<Rightarrow> if exit_code r \<noteq> 0 then capture (ls @ [''failed'']) else capture ls)"

definition validate_tokens :: "unit cmd" where
  "validate_tokens =
     thn (echo ''Validating Cloudflare token... '') (\<lambda>_.
     thn (cf ''GET'' ''/user/tokens/verify'' None) (\<lambda>r.
     thn (if or_failed r (path [Field ''result'', Field ''status'']) = ''active''
          then info ''active''
          else thn (err (or_failed r (path [Field ''result'', Field ''status'']))) (\<lambda>_.
               exit_with 1)) (\<lambda>_.
     thn (echo ''Validating DNSimple token... '') (\<lambda>_.
     thn (ds ''GET'' [] None) (\<lambda>r.
     if or_failed r (path [Field ''data'', Field ''plan_identifier'']) \<noteq> ''failed''
     then info (''OK (plan: '' @ or_failed r (path [Field ''data'', Field ''plan_identifier''])
            @ '')'')
     else thn (err ''failed'') (\<lambda>_. exit_with 1))))))"

definition run_all :: "unit cmd" where
  "run_all =
     thn (for_each echo
            [''+---------------------------------------------------+'',
             ''|   DNSimple -> Cloudflare DNS Migration             |'',
             ''|   Domains: '' @ concat (map (\<lambda>d. d @ '' '') (butlast DOMAINS)) @ last DOMAINS @
               ''  |'',
             ''+---------------------------------------------------+'',
             []]) (\<lambda>_.
     thn validate_tokens (\<lambda>_.
     thn (confirm ''Step 2: Add zones to Cloudflare?'') (\<lambda>_.
     thn step_add_zones (\<lambda>_.
     thn (confirm ''Step 3: Create DNS records (clears auto-imports first)?'') (\<lambda>_.
     thn step_create_records (\<lambda>_.
     thn (confirm ''Step 4: Create redirect rules?'') (\<lambda>_.
     thn step_create_redirects (\<lambda>_.
     thn (confirm ''Step 5: Switch nameservers at DNSimple (CHANGES LIVE DNS)?'') (\<lambda>_.
     thn step_switch_nameservers (\<lambda>_.
     thn (echo []) (\<lambda>_.
     thn (info ''Nameservers switched. Propagation may take 1-48 hours.'') (\<lambda>_.
     thn (confirm ''Step 6: Run verification checks?'') (\<lambda>_.
     thn step_verify (\<lambda>_.
     thn (confirm ''Step 7: Unlock domains for transfer? (auth codes emailed)'') (\<lambda>_.
     thn step_unlock_domains (\<lambda>_.
     thn (echo []) (\<lambda>_.
     thn (info ''Migration script complete!'') (\<lambda>_.
     for_each echo
       [[],
        ''Remaining manual steps:'',
        ''  1. Enter transfer auth codes in Cloudflare dashboard'',
        ''  2. Wait for transfers to complete (5-7 days)'',
        ''  3. Cancel DNSimple subscription'']))))))))))))))))))"

text \<open>
  Lines 617-629, the loop of the \<^verbatim>\<open>verify\<close> entry. It opens with \<^verbatim>\<open>local\<close>, which outside
  a function is an error with status 1: under \<^verbatim>\<open>set -e\<close> the script ends there.
\<close>

definition local_outside_function :: "unit cmd" where
  "local_outside_function =
     thn (say (Stderr ''local: can only be used in a function'')) (\<lambda>_. exit_with 1)"

definition fetch_zone :: "string \<Rightarrow> unit cmd" where
  "fetch_zone domain =
     thn local_outside_function (\<lambda>_.
     thn (checked (cf ''GET'' (''/zones?name='' @ domain) None)) (\<lambda>result.
     thn (must (jq_r (Alt (path [Field ''result'', Index 0, Field ''id'']) Empty)
            (as_json result))) (\<lambda>zone_id.
     thn (must (jq_r (Alt (path [Field ''result'', Index 0, Field ''name_servers'', Index 0])
            Empty) (as_json result))) (\<lambda>ns1.
     thn (must (jq_r (Alt (path [Field ''result'', Index 0, Field ''name_servers'', Index 1])
            Empty) (as_json result))) (\<lambda>ns2.
     if zone_id \<noteq> [] then save_zone domain zone_id ns1 ns2 else ret ())))))"

text \<open>Lines 612-630: without a state file the \<^verbatim>\<open>verify\<close> entry creates one.\<close>

definition load_zone_ids :: "unit cmd" where
  "load_zone_ids s =
     (case zone_map_file s of
        Some j \<Rightarrow> ret () s
      | None \<Rightarrow>
          thn (echo ''No state file found. Fetching zone IDs from Cloudflare...'') (\<lambda>_.
          thn (\<lambda>t. (Inr (), t\<lparr>zone_map_file := Some (JObj [])\<rparr>)) (\<lambda>_.
          for_each fetch_zone DOMAINS)) s)"

definition step_names :: "string list" where
  "step_names = [''add-zones'', ''create-records'', ''create-redirects'', ''switch-ns'',
                 ''verify'', ''unlock'', ''all'']"

definition usage :: string where
  "usage = ''Usage: ./scripts/cloudflare-migration.sh '' @
           ''[add-zones|create-records|create-redirects|switch-ns|verify|unlock|all]''"

text \<open>The \<^verbatim>\<open>case "${1:-all}"\<close> statement, lines 606-640.\<close>

definition dispatch :: "string \<Rightarrow> unit cmd" where
  "dispatch step =
     (if step = ''add-zones'' then thn validate_tokens (\<lambda>_. step_add_zones)
      else if step = ''create-records'' then thn validate_tokens (\<lambda>_. step_create_records)
      else if step = ''create-redirects'' then thn validate_tokens (\<lambda>_. step_create_redirects)
      else if step = ''switch-ns'' then thn validate_tokens (\<lambda>_. step_switch_nameservers)
      else if step = ''verify'' then
        thn load_zone_ids (\<lambda>_. thn validate_tokens (\<lambda>_. step_verify))
      else if step = ''unlock'' then thn validate_tokens (\<lambda>_. step_unlock_domains)
      else if step = ''all'' then run_all
      else thn (echo usage) (\<lambda>_. exit_with 1))"

text \<open>
  The script from its first line: \<^verbatim>\<open>${CF_API_TOKEN:?...}\<close> and \<^verbatim>\<open>${DS_API_TOKEN:?...}\<close> end it
  with status 1 when the variable is unset or empty; \<^verbatim>\<open>${1:-all}\<close> is \<^verbatim>\<open>all\<close> when the
  argument is missing or empty. \<open>None\<close> stands for an unset variable or a missing argument.
\<close>

definition unset_or_empty :: "string option \<Rightarrow> bool" where
  "unset_or_empty v = (case v of None \<Rightarrow> True | Some t \<Rightarrow> t = [])"

definition main :: "string option \<Rightarrow> string option \<Rightarrow> string option \<Rightarrow> unit cmd" where
  "main CF_API_TOKEN DS_API_TOKEN arg =
     (if unset_or_empty CF_API_TOKEN then
        thn (say (Stderr ''CF_API_TOKEN: Export CF_API_TOKEN first'')) (\<lambda>_. exit_with 1)
      else if unset_or_empty DS_API_TOKEN then
        thn (say (Stderr ''DS_API_TOKEN: Export DS_API_TOKEN first'')) (\<lambda>_. exit_with 1)
      else dispatch (case arg of None \<Rightarrow> ''all'' | Some a \<Rightarrow> if a = [] then ''all'' else a))"

section \<open>Notions used by the properties\<close>

text \<open>The entry of a domain in the state file: what \<^verbatim>\<open>.[$d]\<close> yields on it.\<close>

definition zone_record :: "json option \<Rightarrow> string \<Rightarrow> json list option" where
  "zone_record f d = (case f of None \<Rightarrow> None | Some j \<Rightarrow> jq (Field d) j)"

text \<open>A request that changes something at its receiver: any curl call other than GET
  and HEAD.\<close>

definition mutating :: "request \<Rightarrow> bool" where
  "mutating r = (case r of Curl m u d \<Rightarrow> m \<noteq> ''GET'' \<and> m \<noteq> ''HEAD'' | _ \<Rightarrow> False)"

definition reading :: "request \<Rightarrow> bool" where
  "reading r = (\<not> mutating r)"


text \<open>
  A run from \<open>s\<close> to \<open>s'\<close> that leaves an aspect \<open>g\<close> of the state file as it was and only
  adds requests that satisfy \<open>P\<close>.
\<close>

definition grows :: "(json option \<Rightarrow> 'a) \<Rightarrow> (request \<Rightarrow> bool) \<Rightarrow> shell \<Rightarrow> shell \<Rightarrow> bool" where
  "grows g P s s' \<longleftrightarrow>
     g (zone_map_file s') = g (zone_map_file s) \<and>
     (\<exists>new. requests s' = requests s @ new \<and> list_all P new)"

subsection \<open>Sample runs\<close>

text \<open>A fresh shell with a given state file and outside world.\<close>

definition fresh :: "json option \<Rightarrow> (request list \<Rightarrow> request \<Rightarrow> reply) \<Rightarrow> shell" where
  "fresh f w = \<lparr>zone_map_file = f, requests = [], printed = [], count = 0, created = 0,
                skipped = 0, remote = w\<rparr>"

text \<open>No network: every command fails and prints nothing.\<close>

definition offline :: "request list \<Rightarrow> request \<Rightarrow> reply" where
  "offline h r = \<lparr>exit_code = 6, stdout = [], as_json = Blank\<rparr>"

text \<open>A state file that knows one of the five domains.\<close>

definition one_zone :: json where
  "one_zone = JObj [(''eewby.com'', zone_entry ''z1'' ''ann.ns.cloudflare.com''
                      ''bob.ns.cloudflare.com'')]"

text \<open>A member of an object, and the text the script reads from it with \<^verbatim>\<open>jq -r\<close>.\<close>

definition member :: "json \<Rightarrow> string \<Rightarrow> json" where
  "member r k =
     (case r of JObj kv \<Rightarrow> (case map_of kv k of Some v \<Rightarrow> v | None \<Rightarrow> JNull) | _ \<Rightarrow> JNull)"

definition shown :: "json \<Rightarrow> string" where
  "shown v = capture [raw v]"

text \<open>\<^verbatim>\<open>jq -r '.priority // empty'\<close>: nothing for a missing, null or false priority.\<close>

definition priority_text :: "json \<Rightarrow> string" where
  "priority_text r =
     (if truthy (member r ''priority'') then shown (member r ''priority'') else [])"

definition cf_name_of :: "json \<Rightarrow> string" where
  "cf_name_of r = (if shown (member r ''name'') = [] then ''@'' else shown (member r ''name''))"

definition create_request :: "string \<Rightarrow> string \<Rightarrow> request" where
  "create_request zone_id body =
     Curl ''POST'' (CF_API @ ''/zones/'' @ zone_id @ ''/dns_records'') (Some body)"

text \<open>Whether the answer to a request, made from state \<open>s\<close>, reports success.\<close>

definition succeeds :: "shell \<Rightarrow> request \<Rightarrow> bool" where
  "succeeds s q =
     (lenient (jq_r (Field ''success'') (as_json (remote s (requests s) q))) = ''true'')"

text \<open>The lines printed by a command started in \<open>s\<close>.\<close>

definition printed_by :: "'a cmd \<Rightarrow> shell \<Rightarrow> line list" where
  "printed_by c s = drop (length (printed s)) (printed (after c s))"

text \<open>
  An outside world for the zone \<open>z1\<close> of \<open>eewby.com\<close>: the target provider lists the given
  records of the zone, the source provider the given records of the domain, and every
  other HTTP request succeeds.
\<close>

definition answer :: "json \<Rightarrow> reply" where
  "answer j = \<lparr>exit_code = 0, stdout = json_text j, as_json = Doc j\<rparr>"

definition world :: "json list \<Rightarrow> json list \<Rightarrow> request list \<Rightarrow> request \<Rightarrow> reply" where
  "world zone_records source_records h r =
     (if r = Curl ''GET'' (CF_API @ ''/zones/z1/dns_records?per_page=100'') None
        then answer (JObj [(''success'', JBool True), (''result'', JArr zone_records)])
      else if r = Curl ''GET'' (DS_API @ ''/zones/eewby.com/records?per_page=100'') None
        then answer (JObj [(''data'', JArr source_records)])
      else (case r of
              Curl m u d \<Rightarrow> answer (JObj [(''success'', JBool True), (''result'', JNull)])
            | _ \<Rightarrow> \<lparr>exit_code = 0, stdout = [], as_json = Blank\<rparr>))"

text \<open>Source records as the source provider lists them.\<close>

definition source_fields :: "string \<Rightarrow> string \<Rightarrow> string \<Rightarrow> json \<Rightarrow> bool \<Rightarrow> (string \<times> json) list" where
  "source_fields rtype name content priority system =
     [(''id'', JNum 1), (''zone_id'', JStr ''eewby.com''), (''name'', JStr name),
      (''content'', JStr content), (''ttl'', JNum 3600), (''priority'', priority),
      (''type'', JStr rtype), (''system_record'', JBool system)]"

definition source_record :: "string \<Rightarrow> string \<Rightarrow> string \<Rightarrow> json \<Rightarrow> json" where
  "source_record rtype name content priority =
     JObj (source_fields rtype name content priority False)"

definition hire_url :: json where
  "hire_url = source_record ''URL'' ''hire'' ''https://mstrick.com/hire'' JNull"

definition apex_url :: json where
  "apex_url = source_record ''URL'' [] ''https://www.eewby.com'' JNull"

definition caa_record :: json where
  \<open>caa_record = source_record ''CAA'' [] ''0 issue "letsencrypt.org"'' JNull\<close>

definition www_record :: json where
  "www_record = source_record ''A'' ''www'' ''192.0.2.10'' JNull"

text \<open>A record of the target zone, as the target provider lists it.\<close>

definition zone_row :: "string \<Rightarrow> json" where
  "zone_row rid = JObj [(''id'', JStr rid), (''type'', JStr ''A''), (''name'', JStr ''eewby.com'')]"

definition mx_record :: json where
  "mx_record = source_record ''MX'' [] ''mx.example.net'' (JNum 5)"

section \<open>Properties\<close>

subsection \<open>Sequencing rules\<close>

lemma thn_ret [simp]: "thn (ret x) f = f x"
  by (rule ext) (simp add: thn_def ret_def)

lemma must_Inr [simp]: "must (Inr x) = ret x"
  by (simp add: must_def)

lemma grows_refl: "grows g P s s"
  by (simp add: grows_def)

lemma grows_trans: "grows g P s t \<Longrightarrow> grows g P t u \<Longrightarrow> grows g P s u"
  by (auto simp: grows_def)

lemma grows_issued:
  assumes "grows g P s (after c s)"
  shows "list_all P (issued c s)" and "g (zone_map_file (after c s)) = g (zone_map_file s)"
  using assms by (auto simp: grows_def issued_def)

lemma grows_thn:
  assumes "grows g P s (after m s)"
    and "\<And>x t. m s = (Inr x, t) \<Longrightarrow> grows g P t (after (f x) t)"
  shows "grows g P s (after (thn m f) s)"
proof (cases "m s")
  case (Pair r t)
  show ?thesis
  proof (cases r)
    case (Inl n)
    with Pair assms(1) show ?thesis by (simp add: after_def thn_def)
  next
    case (Inr x)
    with Pair have "after (thn m f) s = after (f x) t" by (simp add: after_def thn_def)
    moreover have "grows g P s t" using assms(1) Pair by (simp add: after_def)
    moreover have "grows g P t (after (f x) t)" using assms(2) Pair Inr by simp
    ultimately show ?thesis using grows_trans by metis
  qed
qed

lemma grows_seq:
  assumes "grows g P s (after m s)" and "\<And>x t. grows g P t (after (f x) t)"
  shows "grows g P s (after (thn m f) s)"
  using assms by (intro grows_thn) auto

lemma grows_if:
  "(c \<Longrightarrow> grows g P s (after A s)) \<Longrightarrow> (\<not> c \<Longrightarrow> grows g P s (after B s))
    \<Longrightarrow> grows g P s (after (if c then A else B) s)"
  by simp

lemma grows_ret: "grows g P s (after (ret x) s)"
  by (simp add: grows_def after_def ret_def)

lemma grows_exit_with: "grows g P s (after (exit_with n) s)"
  by (simp add: grows_def after_def exit_with_def)

lemma grows_say: "grows g P s (after (say l) s)"
  by (simp add: grows_def after_def say_def)

lemma grows_must: "grows g P s (after (must r) s)"
  by (cases r) (simp_all add: must_def grows_ret grows_exit_with)

lemma grows_run: "P r \<Longrightarrow> grows g P s (after (run r) s)"
  by (simp add: grows_def after_def run_def)

lemma grows_checked: "grows g P s (after c s) \<Longrightarrow> grows g P s (after (checked c) s)"
  unfolding checked_def
  by (rule grows_thn) (auto simp: grows_ret grows_exit_with)

lemma grows_jq_file: "grows g P s (after (jq_file f) s)"
  by (cases "zone_map_file s")
    (simp_all add: after_def jq_file_def grows_exit_with [unfolded after_def]
      grows_must [unfolded after_def])

lemma grows_for_each:
  assumes "\<And>x t. grows g P t (after (body x) t)"
  shows "grows g P s (after (for_each body xs) s)"
proof (induction xs arbitrary: s)
  case Nil
  show ?case by (simp add: grows_ret)
next
  case (Cons a xs)
  show ?case unfolding for_each.simps
    by (rule grows_seq) (simp_all add: assms Cons.IH)
qed

lemma grows_save_zone:
  assumes "\<And>j j'. jq_assign d' (zone_entry z n1 n2) j = Some j' \<Longrightarrow> g (Some j') = g (Some j)"
  shows "grows g P s (after (save_zone d' z n1 n2) s)"
  using assms
  by (auto simp: grows_def after_def save_zone_def exit_with_def split: option.splits)

lemma grows_piped_jq:
  assumes "grows g P s (after c s)"
  shows "grows g P s (after (piped_jq c f) s)"
  unfolding piped_jq_def
  by (rule grows_seq [OF assms]) (auto simp: grows_exit_with grows_ret split: sum.splits)

lemma grows_show_zone_map: "grows g P s (after show_zone_map s)"
  by (cases "zone_map_file s")
    (simp_all add: show_zone_map_def after_def grows_exit_with [unfolded after_def]
      grows_say [unfolded after_def])

lemma grows_validate_tokens:
  assumes "P (Curl ''GET'' (CF_API @ ''/user/tokens/verify'') None)"
    and "P (Curl ''GET'' (DS_API @ []) None)"
  shows "grows g P s (after validate_tokens s)"
  unfolding validate_tokens_def echo_def info_def err_def cf_def ds_def
  by (intro grows_seq grows_if grows_say grows_exit_with grows_run assms)

lemma grows_validate_tokens_reading: "grows g reading s (after validate_tokens s)"
  by (rule grows_validate_tokens) (simp_all add: reading_def mutating_def)

lemma main_with_tokens:
  assumes "\<not> unset_or_empty t1" "\<not> unset_or_empty t2"
  shows "main t1 t2 arg = dispatch (case arg of None \<Rightarrow> ''all'' | Some a \<Rightarrow> if a = [] then ''all'' else a)"
  using assms by (simp add: main_def)

subsection \<open>Evaluation\<close>

lemma capture_Nil [simp]: "capture [] = []"
  by (simp add: capture_def strip_newlines_def)

lemma digit_not_newline: "k < 10 \<Longrightarrow> digit k \<noteq> newline"
proof
  assume k: "k < 10" and e: "digit k = newline"
  have "(of_char (digit k) :: nat) = 48 + k" using k by (simp add: digit_def)
  moreover have "(of_char newline :: nat) = 10" by (simp add: newline_def)
  ultimately show False using e by simp
qed

lemma dec_last: "dec n \<noteq> [] \<and> last (dec n) \<noteq> newline"
  by (subst dec.simps, subst (2) dec.simps) (simp add: digit_not_newline)

lemma strip_newlines_line:
  "t \<noteq> [] \<Longrightarrow> last t \<noteq> newline \<Longrightarrow> strip_newlines (t @ [newline]) = t"
  by (cases t rule: rev_cases) (simp_all add: strip_newlines_def)

lemma dec_small:
  "dec 0 = ''0''" "dec 1 = ''1''" "dec 2 = ''2''" "dec 5 = ''5''" "dec 20 = ''20''"
  by code_simp+

lemma dec_Suc2: "dec (Suc (Suc 0)) = ''2''"
  using dec_small(3) by (simp add: numeral_2_eq_2)

lemma shown_nat: "shown (JNum (int n)) = dec n"
  using dec_last [of n]
  by (simp add: shown_def raw_def dec_int_def capture_def strip_newlines_line)

lemma shown_true: "shown (JBool True) = ''true''"
  by (simp add: shown_def raw_def capture_def strip_newlines_def newline_def)

lemmas shell_defs = thn_def ret_def exit_with_def must_def say_def run_def info_def warn_def
  err_def echo_def header_def cf_def ds_def checked_def jq_file_def zone_id_for_def
  after_def issued_def printed_by_def

lemmas jq_defs = jq_r_def jq_j_def jq_lines_def raw_def truthy_def capture_def
  strip_newlines_def newline_def lenient_def

lemmas sample_defs = fresh_def world_def answer_def one_zone_def zone_entry_def
  source_record_def source_fields_def mx_record_def offline_def hire_url_def apex_url_def
  caa_record_def www_record_def zone_row_def

lemmas step3_defs = step_create_records_def create_records_for_def clear_zone_records_def
  clear_record_def process_record_def record_case_def create_cf_record_def
  and_incr_created_def incr_skipped_def incr_count_def arith_status_def data_records_def
  DOMAINS_def words_by_def ifs_space_def

subsection \<open>add-zones\<close>


lemma zone_id_for_cong:
  assumes "zone_id_for d s = (Inr z, t)" "z \<noteq> []"
    "zone_record (zone_map_file s') d = zone_record (zone_map_file s) d"
  shows "zone_id_for d s' = (Inr z, s')"
  using assms
  by (auto simp: zone_id_for_def jq_file_def zone_record_def must_def ret_def exit_with_def
      jq_r_def jq_lines_def split: option.splits sum.splits)


lemma add_zone_present:
  assumes "zone_id_for d s = (Inr z, s)" "z \<noteq> []"
  shows "add_zone d s = info (d @ '' - already added (zone: '' @ z @ '')'') s"
  using assms by (simp add: add_zone_def thn_def)







lemma for_each_add_zone_present:
  assumes "\<forall>d\<in>set doms. \<exists>z. zone_id_for d s = (Inr z, s) \<and> z \<noteq> []"
  shows "grows (\<lambda>f. f) (\<lambda>r. False) s (after (for_each add_zone doms) s)"
  using assms
proof (induction doms arbitrary: s)
  case Nil
  show ?case by (simp add: grows_ret)
next
  case (Cons a doms)
  from Cons.prems obtain z where z: "zone_id_for a s = (Inr z, s)" "z \<noteq> []" by auto
  have a: "add_zone a s = say (Info (a @ '' - already added (zone: '' @ z @ '')'')) s"
    using add_zone_present [OF z] by (simp add: info_def)
  show ?case
    unfolding for_each.simps
  proof (rule grows_thn)
    show "grows (\<lambda>f. f) (\<lambda>r. False) s (after (add_zone a) s)"
      using a grows_say [of "\<lambda>f. f" "\<lambda>r. False" s] by (simp add: after_def)
  next
    fix x t assume "add_zone a s = (Inr x, t)"
    with a have t: "zone_map_file t = zone_map_file s" by (auto simp: say_def)
    have "\<forall>d\<in>set doms. \<exists>z. zone_id_for d t = (Inr z, t) \<and> z \<noteq> []"
    proof
      fix d assume "d \<in> set doms"
      with Cons.prems obtain y where y: "zone_id_for d s = (Inr y, s)" "y \<noteq> []" by auto
      have "zone_id_for d t = (Inr y, t)"
        by (rule zone_id_for_cong [OF y]) (simp add: t)
      with y(2) show "\<exists>z. zone_id_for d t = (Inr z, t) \<and> z \<noteq> []" by blast
    qed
    then show "grows (\<lambda>f. f) (\<lambda>r. False) t (after (for_each add_zone doms) t)"
      by (rule Cons.IH)
  qed
qed

text \<open>When the state file holds a zone id for each of the five domains, the step makes no
  request at all and leaves the file as it is.\<close>

lemma add_zones_nothing_to_do:
  assumes "\<forall>d\<in>set DOMAINS. \<exists>z. zone_id_for d s = (Inr z, s) \<and> z \<noteq> []"
  shows "issued step_add_zones s = []
       \<and> zone_map_file (after step_add_zones s) = zone_map_file s"
proof -
  let ?G = "grows (\<lambda>f. f) (\<lambda>r. False)"
  from assms obtain z where "zone_id_for ''eewby.com'' s = (Inr z, s)"
    by (auto simp: DOMAINS_def)
  then obtain j where j: "zone_map_file s = Some j"
    by (auto simp: zone_id_for_def jq_file_def exit_with_def split: option.splits)
  define s1 where "s1 = s\<lparr>printed := printed s @ [Header ''Step 2: Add zones to Cloudflare'']\<rparr>"
  have p1: "\<forall>d\<in>set DOMAINS. \<exists>z. zone_id_for d s1 = (Inr z, s1) \<and> z \<noteq> []"
  proof
    fix d assume "d \<in> set DOMAINS"
    with assms obtain y where y: "zone_id_for d s = (Inr y, s)" "y \<noteq> []" by auto
    have "zone_id_for d s1 = (Inr y, s1)"
      by (rule zone_id_for_cong [OF y]) (simp add: s1_def)
    with y(2) show "\<exists>z. zone_id_for d s1 = (Inr z, s1) \<and> z \<noteq> []" by blast
  qed
  have unfold: "after step_add_zones s =
      after (thn (for_each add_zone DOMAINS) (\<lambda>_. thn (echo []) (\<lambda>_.
        thn (info (''Zone map saved to '' @ ZONE_MAP_FILE)) (\<lambda>_. show_zone_map)))) s1"
    by (simp add: step_add_zones_def after_def thn_def header_def say_def init_zone_map_def j s1_def)
  have "?G s s1" by (simp add: grows_def s1_def)
  moreover have "?G s1 (after (thn (for_each add_zone DOMAINS) (\<lambda>_. thn (echo []) (\<lambda>_.
        thn (info (''Zone map saved to '' @ ZONE_MAP_FILE)) (\<lambda>_. show_zone_map)))) s1)"
    unfolding echo_def info_def
    by (intro grows_seq grows_say grows_show_zone_map for_each_add_zone_present [OF p1])
  ultimately have "?G s (after step_add_zones s)" unfolding unfold by (rule grows_trans)
  from grows_issued [OF this] show ?thesis
    by (cases "issued step_add_zones s") simp_all
qed

subsection \<open>create-records: one source record\<close>

lemma jq_r_member:
  "jq_r (Field k) (Doc (JObj kv)) = Inr (shown (member (JObj kv) k))"
  by (simp add: jq_r_def jq_lines_def member_def shown_def)

lemma jq_r_priority:
  "jq_r (Alt (Field ''priority'') Empty) (Doc (JObj kv)) = Inr (priority_text (JObj kv))"
  by (simp add: jq_r_def jq_lines_def member_def shown_def priority_text_def)

lemma process_record_object:
  "process_record z d (JObj kv) =
     (if shown (member (JObj kv) ''system_record'') = ''true'' then ret ()
      else record_case z d (shown (member (JObj kv) ''type'')) (shown (member (JObj kv) ''name''))
             (cf_name_of (JObj kv)) (shown (member (JObj kv) ''content''))
             (priority_text (JObj kv)))"
  by (simp add: process_record_def jq_r_member jq_r_priority cf_name_of_def)

text \<open>
  C10. A source record whose \<open>system_record\<close> member is true is passed over: processing it
  returns normally and leaves the whole state as it was (no request, no message, both
  counters unchanged), so the loop goes on with the records that follow.
\<close>

theorem system_records_skipped:
  assumes "member (JObj kv) ''system_record'' = JBool True"
  shows "process_record z d (JObj kv) s = (Inr (), s)
       \<and> for_each (process_record z d) (JObj kv # rs) s = for_each (process_record z d) rs s"
  using assms by (simp add: process_record_object shown_true ret_def thn_def)

theorem system_records_skipped_witness:
  "member (JObj (source_fields ''NS'' [] ''ns1.dnsimple.com'' JNull True)) ''system_record''
     = JBool True
   \<and> process_record ''z1'' ''eewby.com''
       (JObj (source_fields ''NS'' [] ''ns1.dnsimple.com'' JNull True))
       (fresh (Some one_zone) offline)
     = (Inr (), fresh (Some one_zone) offline)"
proof -
  have m: "member (JObj (source_fields ''NS'' [] ''ns1.dnsimple.com'' JNull True))
      ''system_record'' = JBool True"
    by (simp add: member_def source_fields_def)
  show ?thesis
    using system_records_skipped [OF m, where z = "''z1''" and d = "''eewby.com''"
          and s = "fresh (Some one_zone) offline" and rs = "[]"] m
    by simp
qed

lemma succeeds_printed [simp]: "succeeds (s\<lparr>printed := p\<rparr>) q = succeeds s q"
  by (simp add: succeeds_def)

lemma create_cf_record_run:
  "create_cf_record z body s =
     (Inr (succeeds s (create_request z body)),
      if succeeds s (create_request z body)
      then s\<lparr>requests := requests s @ [create_request z body]\<rparr>
      else s\<lparr>requests := requests s @ [create_request z body],
             printed := printed s @ [Err (''    Failed: '' @
               lenient (jq_r (Alt (path [Field ''errors'', Index 0, Field ''message''])
                 (Lit (JStr ''unknown'')))
                 (as_json (remote s (requests s) (create_request z body)))))]\<rparr>)"
  by (simp add: create_cf_record_def thn_def cf_def run_def succeeds_def create_request_def
      err_def say_def ret_def)

lemma create_counted:
  "issued (thn (info m) (\<lambda>_. thn (create_cf_record z body) and_incr_created)) s
     = [create_request z body]"
  "created (after (thn (info m) (\<lambda>_. thn (create_cf_record z body) and_incr_created)) s)
     = (if succeeds s (create_request z body) then created s + 1 else created s)"
  "skipped (after (thn (info m) (\<lambda>_. thn (create_cf_record z body) and_incr_created)) s)
     = skipped s"
  "fst ((thn (info m) (\<lambda>_. thn (create_cf_record z body) and_incr_created)) s) = Inr ()"
  by (simp_all add: issued_def after_def thn_def info_def say_def create_cf_record_run
      and_incr_created_def)

text \<open>
  C8. For a source record of type MX that is not a system record, exactly one request is
  issued, the creation of an MX record; its priority is 10 when the source record has no
  priority (missing or null), and the source's number when it has one.
\<close>

theorem mx_priority:
  assumes "shown (member (JObj kv) ''type'') = ''MX''"
    and "shown (member (JObj kv) ''system_record'') \<noteq> ''true''"
  shows \<open>(member (JObj kv) ''priority'' = JNull \<longrightarrow>
            issued (process_record z d (JObj kv)) s =
              [create_request z (''{"type":"MX","name":"'' @ cf_name_of (JObj kv) @
                 ''","content":"'' @ shown (member (JObj kv) ''content'') @
                 ''","ttl":1,"priority":10}'')])
       \<and> (member (JObj kv) ''priority'' = JNum (int n) \<longrightarrow>
            issued (process_record z d (JObj kv)) s =
              [create_request z (''{"type":"MX","name":"'' @ cf_name_of (JObj kv) @
                 ''","content":"'' @ shown (member (JObj kv) ''content'') @
                 ''","ttl":1,"priority":'' @ dec n @ ''}'')])\<close>
  using assms dec_last [of n]
  by (simp add: process_record_object record_case_def create_counted mx_body_def
      priority_text_def truthy_def shown_nat default_to_def)

theorem mx_priority_witness:
  \<open>member (JObj (source_fields ''MX'' [] ''mx.example.net'' JNull False)) ''priority'' = JNull
   \<and> issued (process_record ''z1'' ''eewby.com''
        (JObj (source_fields ''MX'' [] ''mx.example.net'' JNull False)))
        (fresh (Some one_zone) offline) =
       [create_request ''z1''
         ''{"type":"MX","name":"@","content":"mx.example.net","ttl":1,"priority":10}'']
   \<and> member (JObj (source_fields ''MX'' ''mail'' ''mx.example.net'' (JNum 20) False))
        ''priority'' = JNum 20
   \<and> issued (process_record ''z1'' ''eewby.com''
        (JObj (source_fields ''MX'' ''mail'' ''mx.example.net'' (JNum 20) False)))
        (fresh (Some one_zone) offline) =
       [create_request ''z1''
         ''{"type":"MX","name":"mail","content":"mx.example.net","ttl":1,"priority":20}'']\<close>
proof -
  let ?a = "source_fields ''MX'' [] ''mx.example.net'' JNull False"
  let ?b = "source_fields ''MX'' ''mail'' ''mx.example.net'' (JNum 20) False"
  have a: "shown (member (JObj ?a) ''type'') = ''MX''"
    "shown (member (JObj ?a) ''system_record'') \<noteq> ''true''"
    "member (JObj ?a) ''priority'' = JNull"
    "cf_name_of (JObj ?a) = ''@''"
    "shown (member (JObj ?a) ''content'') = ''mx.example.net''"
    by (simp_all add: cf_name_of_def member_def source_fields_def shown_def jq_defs)
  have b: "shown (member (JObj ?b) ''type'') = ''MX''"
    "shown (member (JObj ?b) ''system_record'') \<noteq> ''true''"
    "member (JObj ?b) ''priority'' = JNum (int 20)"
    "cf_name_of (JObj ?b) = ''mail''"
    "shown (member (JObj ?b) ''content'') = ''mx.example.net''"
    by (simp_all add: cf_name_of_def member_def source_fields_def shown_def jq_defs)
  show ?thesis
    using mx_priority [OF a(1,2), where z = "''z1''" and d = "''eewby.com''"
          and s = "fresh (Some one_zone) offline" and n = 0]
      mx_priority [OF b(1,2), where z = "''z1''" and d = "''eewby.com''"
          and s = "fresh (Some one_zone) offline" and n = 20]
      a b
    by (simp add: dec_small)
qed

text \<open>
  C7. For a source record of type SRV with name \<open>_sip._tcp\<close> and content
  \<open>10 5060 sip.example.com.\<close>, the one request issued creates a record with service
  \<open>_sip\<close>, proto \<open>_tcp\<close>, weight 10, port 5060 and target \<open>sip.example.com\<close>: the content
  is read as weight, port and target, the first two labels of the name give service and
  proto, and the dot that ends the target is removed.
\<close>

theorem srv_example:
  assumes "shown (member (JObj kv) ''type'') = ''SRV''"
    and "shown (member (JObj kv) ''system_record'') \<noteq> ''true''"
    and "shown (member (JObj kv) ''name'') = ''_sip._tcp''"
    and "shown (member (JObj kv) ''content'') = ''10 5060 sip.example.com.''"
  shows \<open>issued (process_record z d (JObj kv)) s =
           [create_request z (''{"type":"SRV","name":"_sip._tcp.'' @ d @
              ''","data":{"service":"_sip","proto":"_tcp","name":"'' @ d @
              ''","priority":'' @ default_to ''0'' (priority_text (JObj kv)) @
              '',"weight":10,"port":5060,"target":"sip.example.com"}}'')]
         \<and> cut_field 1 ''_sip._tcp'' = ''_sip'' \<and> cut_field 2 ''_sip._tcp'' = ''_tcp''
         \<and> awk_field 1 ''10 5060 sip.example.com.'' = ''10''
         \<and> awk_field 2 ''10 5060 sip.example.com.'' = ''5060''
         \<and> srv_target ''10 5060 sip.example.com.'' = ''sip.example.com''\<close>
proof -
  have c: "cut_field 1 ''_sip._tcp'' = ''_sip''" "cut_field 2 ''_sip._tcp'' = ''_tcp''"
    by (simp_all add: cut_field_def cut_dot_def echo_lines_def split_on_def capture_def
        strip_newlines_def newline_def)
  have a: "awk_field 1 ''10 5060 sip.example.com.'' = ''10''"
    "awk_field 2 ''10 5060 sip.example.com.'' = ''5060''"
    "srv_target ''10 5060 sip.example.com.'' = ''sip.example.com''"
    by (simp_all add: awk_field_def srv_target_def awk_print_def words_by_def blank_def
        sed_strip_dot_def echo_lines_def split_on_def capture_def strip_newlines_def
        newline_def)
  show ?thesis
    using assms
    by (simp add: process_record_object record_case_def create_counted srv_body_def
        c [unfolded One_nat_def] a [unfolded One_nat_def] Let_def)
qed

theorem srv_example_witness:
  \<open>shown (member (JObj (source_fields ''SRV'' ''_sip._tcp'' ''10 5060 sip.example.com.''
      JNull False)) ''type'') = ''SRV''
   \<and> issued (process_record ''z1'' ''eewby.com''
        (JObj (source_fields ''SRV'' ''_sip._tcp'' ''10 5060 sip.example.com.'' JNull False)))
        (fresh (Some one_zone) offline) =
       [create_request ''z1''
         (''{"type":"SRV","name":"_sip._tcp.eewby.com","data":{"service":"_sip",'' @
          ''"proto":"_tcp","name":"eewby.com","priority":0,"weight":10,"port":5060,'' @
          ''"target":"sip.example.com"}}'')]\<close>
proof -
  let ?kv = "source_fields ''SRV'' ''_sip._tcp'' ''10 5060 sip.example.com.'' JNull False"
  have h: "shown (member (JObj ?kv) ''type'') = ''SRV''"
    "shown (member (JObj ?kv) ''system_record'') \<noteq> ''true''"
    "shown (member (JObj ?kv) ''name'') = ''_sip._tcp''"
    "shown (member (JObj ?kv) ''content'') = ''10 5060 sip.example.com.''"
    by (simp_all add: member_def source_fields_def shown_def jq_defs)
  have p: "priority_text (JObj ?kv) = []"
    by (simp add: priority_text_def member_def source_fields_def truthy_def)
  show ?thesis
    using srv_example [OF h, where z = "''z1''" and d = "''eewby.com''"
          and s = "fresh (Some one_zone) offline"] h(1) p
    by (simp add: default_to_def)
qed




text \<open>
  A record of an unrecognised type is reported and counted, and no request is made for
  it. The script goes on only when the skip counter was not 0 before; the counter is set
  to 0 for every domain.
\<close>

lemma unknown_type_effect:
  assumes "rtype \<notin> {''A'', ''AAAA'', ''CNAME'', ''ALIAS'', ''MX'', ''TXT'', ''SRV'', ''URL''}"
  shows "record_case z d rtype name cf_name content priority s =
     ((if skipped s = 0 then Inl 1 else Inr ()),
      s\<lparr>printed := printed s @
           [Warn (''  Skipping unknown type: '' @ rtype @ '' '' @ cf_name @ '' -> '' @ content)],
        skipped := skipped s + 1\<rparr>)"
  using assms
  by (simp add: record_case_def thn_def warn_def say_def incr_skipped_def arith_status_def)

subsection \<open>create-records: the domains\<close>



text \<open>Without a state file there is no lookup to come back empty: jq fails on the
  missing file and the script ends at the first domain, before any request.\<close>

lemma no_state_file:
  "zone_map_file s = None \<Longrightarrow> create_records_for d s = (Inl 2, s)"
  by (simp add: create_records_for_def zone_id_for_def jq_file_def thn_def exit_with_def)

text \<open>The loop that clears a zone ends the script after its first deletion, whatever
  the records are.\<close>

lemma clear_stops_after_first:
  "for_each (clear_record z) (rid # rest) (s\<lparr>count := 0\<rparr>) =
     (Inl 1, s\<lparr>count := 1,
               requests := requests s @ [Curl ''DELETE'' (CF_API @ ''/zones/'' @ z @
                 ''/dns_records/'' @ rid) None]\<rparr>)"
  by (simp add: clear_record_def thn_def cf_def run_def incr_count_def arith_status_def)

text \<open>
  C6. The claim does not hold on the script: in a target zone that holds records, the
  first deletion is followed by \<^verbatim>\<open>((count++))\<close> with status 1, and the script ends. Here
  the zone holds two records: the run ends with status 1 after deleting the first; the
  second is not deleted and the source provider is never asked for its records.
\<close>

theorem clearing_ends_run:
  "fst (step_create_records
      (fresh (Some one_zone) (world [zone_row ''r1'', zone_row ''r2''] [www_record]))) = Inl 1
   \<and> issued step_create_records
      (fresh (Some one_zone) (world [zone_row ''r1'', zone_row ''r2''] [www_record])) =
       [Curl ''GET'' (CF_API @ ''/zones/z1/dns_records?per_page=100'') None,
        Curl ''DELETE'' (CF_API @ ''/zones/z1/dns_records/r1'') None]"
  by (simp add: step3_defs shell_defs jq_defs sample_defs zone_row_def www_record_def)

text \<open>
  C2. The claim does not hold on the script: the first record of an unrecognised type in
  a domain is reported and counted, and no record is created for it, but \<^verbatim>\<open>((skipped++))\<close>
  then has status 1 and the script ends. Here the source lists a CAA record and an A
  record: the run ends with status 1 after the warning, the A record is never created and
  the other domains are never visited.
\<close>

theorem unknown_type_ends_run:
  \<open>fst (step_create_records (fresh (Some one_zone) (world [] [caa_record, www_record]))) = Inl 1
   \<and> issued step_create_records (fresh (Some one_zone) (world [] [caa_record, www_record])) =
       [Curl ''GET'' (CF_API @ ''/zones/z1/dns_records?per_page=100'') None,
        Curl ''GET'' (DS_API @ ''/zones/eewby.com/records?per_page=100'') None]
   \<and> printed_by step_create_records (fresh (Some one_zone) (world [] [caa_record, www_record])) =
       [Header ''Step 3: Create DNS records from DNSimple'',
        Echo ''eewby.com (zone: z1)'',
        Info ''  Fetched 2 records from DNSimple'',
        Warn ''  Skipping unknown type: CAA @ -> 0 issue "letsencrypt.org"'']
   \<and> skipped (after step_create_records
        (fresh (Some one_zone) (world [] [caa_record, www_record]))) = 1\<close>
  by (simp add: step3_defs shell_defs jq_defs sample_defs caa_record_def www_record_def
      dec_int_def dec_small)

text \<open>
  For comparison, a run in which the target zone is empty and every source record has a
  known type: the zone is listed, then the source records are fetched and created in
  order, the summary is printed and the loop goes on to the domains without a zone id.
\<close>

lemma clean_run:
  \<open>fst (step_create_records (fresh (Some one_zone) (world [] [www_record, mx_record]))) = Inr ()
   \<and> issued step_create_records (fresh (Some one_zone) (world [] [www_record, mx_record])) =
       [Curl ''GET'' (CF_API @ ''/zones/z1/dns_records?per_page=100'') None,
        Curl ''GET'' (DS_API @ ''/zones/eewby.com/records?per_page=100'') None,
        create_request ''z1''
          ''{"type":"A","name":"www","content":"192.0.2.10","ttl":1,"proxied":false}'',
        create_request ''z1''
          ''{"type":"MX","name":"@","content":"mx.example.net","ttl":1,"priority":5}'']
   \<and> printed_by step_create_records (fresh (Some one_zone) (world [] [www_record, mx_record])) =
       [Header ''Step 3: Create DNS records from DNSimple'',
        Echo ''eewby.com (zone: z1)'',
        Info ''  Fetched 2 records from DNSimple'',
        Info ''  A www -> 192.0.2.10'',
        Info ''  MX @ -> mx.example.net (pri: 5)'',
        Info ''  eewby.com: 2 created, 0 skipped'',
        Echo [],
        Err ''ellastrickland.com - no zone ID found, run add-zones first'',
        Err ''idlefusion.com - no zone ID found, run add-zones first'',
        Err ''katiestrickland.com - no zone ID found, run add-zones first'',
        Err ''mstrick.com - no zone ID found, run add-zones first'']\<close>
  by (simp add: step3_defs shell_defs jq_defs sample_defs dec_int_def dec_small dec_Suc2
      create_request_def plain_body_def mx_body_def default_to_def)

subsection \<open>verify\<close>

lemma grows_verify_zone: "grows g reading s (after (verify_zone d) s)"
  unfolding verify_zone_def zone_id_for_def cf_def info_def warn_def err_def
  by (intro grows_seq grows_if grows_jq_file grows_say grows_piped_jq grows_run)
    (simp add: reading_def mutating_def)

lemma grows_dig_domain: "grows g reading s (after (dig_domain d) s)"
  unfolding dig_domain_def echo_def
  by (intro grows_seq grows_if grows_say grows_exit_with grows_run)
    (simp add: reading_def mutating_def)

lemma grows_https_check: "grows g reading s (after (https_check u) s)"
  unfolding https_check_def echo_def info_def warn_def Let_def
  by (intro grows_seq grows_if grows_say grows_run)
    (simp add: reading_def mutating_def)

lemma grows_redirect_check: "grows g reading s (after redirect_check s)"
  unfolding redirect_check_def info_def warn_def Let_def
  by (intro grows_seq grows_if grows_say grows_exit_with grows_run)
    (simp add: reading_def mutating_def)

lemma grows_mx_records: "grows g reading s (after mx_records s)"
  unfolding mx_records_def echo_def
  by (intro grows_seq grows_if grows_say grows_exit_with grows_ret grows_for_each grows_run)
    (simp add: reading_def mutating_def)

lemma grows_ns_check: "grows g reading s (after (ns_check d) s)"
  unfolding ns_check_def echo_def
  by (intro grows_seq grows_if grows_say grows_exit_with grows_run)
    (simp add: reading_def mutating_def)

lemma grows_step_verify: "grows g reading s (after step_verify s)"
  unfolding step_verify_def header_def echo_def info_def cf_def
  by (intro grows_seq grows_say grows_for_each grows_verify_zone grows_dig_domain
      grows_https_check grows_redirect_check grows_mx_records grows_ns_check grows_piped_jq
      grows_run)
    (simp add: reading_def mutating_def)

lemma grows_fetch_zone: "grows (\<lambda>f. ()) reading s (after (fetch_zone d) s)"
  unfolding fetch_zone_def local_outside_function_def cf_def
  by (intro grows_seq grows_if grows_say grows_exit_with grows_ret grows_must grows_checked
      grows_save_zone grows_run)
    (simp_all add: reading_def mutating_def)

lemma grows_load_zone_ids: "grows (\<lambda>f. ()) reading s (after load_zone_ids s)"
proof (cases "zone_map_file s")
  case None
  have "grows (\<lambda>f. ()) reading s
      (after (thn (echo ''No state file found. Fetching zone IDs from Cloudflare...'') (\<lambda>_.
          thn (\<lambda>t. (Inr (), t\<lparr>zone_map_file := Some (JObj [])\<rparr>)) (\<lambda>_.
          for_each fetch_zone DOMAINS))) s)"
    unfolding echo_def
    by (intro grows_seq grows_say grows_for_each grows_fetch_zone)
      (simp add: grows_def after_def)
  with None show ?thesis by (simp add: load_zone_ids_def after_def)
next
  case (Some j)
  then show ?thesis by (simp add: load_zone_ids_def grows_ret [unfolded after_def] after_def)
qed

lemma load_zone_ids_present:
  "zone_map_file s = Some j \<Longrightarrow> load_zone_ids s = (Inr (), s)"
  by (simp add: load_zone_ids_def ret_def)

lemma grows_verify_entry_any:
  "grows (\<lambda>f. ()) reading s (after (dispatch ''verify'') s)"
  by (simp add: dispatch_def)
    (intro grows_seq grows_load_zone_ids grows_validate_tokens_reading grows_step_verify)

lemma grows_verify_entry_present:
  assumes "zone_map_file s = Some j"
  shows "grows (\<lambda>f. f) reading s (after (dispatch ''verify'') s)"
proof -
  have "after (dispatch ''verify'') s = after (thn validate_tokens (\<lambda>_. step_verify)) s"
    using assms by (simp add: dispatch_def after_def thn_def load_zone_ids_present)
  moreover have "grows (\<lambda>f. f) reading s (after (thn validate_tokens (\<lambda>_. step_verify)) s)"
    by (intro grows_seq grows_validate_tokens_reading grows_step_verify)
  ultimately show ?thesis by simp
qed

lemma no_mutating: "list_all reading rs \<Longrightarrow> filter mutating rs = []"
  by (induction rs) (auto simp: reading_def)

lemma grows_main_verify:
  "grows (\<lambda>f. ()) reading s (after (main t1 t2 (Some ''verify'')) s)"
  unfolding main_def
  by (intro grows_if grows_seq grows_say grows_exit_with)
    (simp add: grows_verify_entry_any)

lemma grows_main_verify_present:
  assumes "zone_map_file s = Some j"
  shows "grows (\<lambda>f. f) reading s (after (main t1 t2 (Some ''verify'')) s)"
  unfolding main_def
  by (intro grows_if grows_seq grows_say grows_exit_with)
    (simp add: grows_verify_entry_present [OF assms])

text \<open>
  C4, as amended. The verify step issues no request other than GET and HEAD (and DNS
  queries) and leaves the state file as it is. So does the \<^verbatim>\<open>verify\<close> entry of the
  script as to requests; it leaves the state file as it is when there is one.
\<close>

theorem verify_read_only:
  "filter mutating (issued step_verify s) = []
   \<and> zone_map_file (after step_verify s) = zone_map_file s
   \<and> filter mutating (issued (main t1 t2 (Some ''verify'')) s) = []
   \<and> (zone_map_file s \<noteq> None \<longrightarrow>
        zone_map_file (after (main t1 t2 (Some ''verify'')) s) = zone_map_file s)"
proof -
  note a = grows_issued [OF grows_step_verify [of "\<lambda>f. f" s]]
  note b = grows_issued [OF grows_main_verify [of s t1 t2]]
  have c: "zone_map_file (after (main t1 t2 (Some ''verify'')) s) = zone_map_file s"
    if "zone_map_file s = Some j" for j
    using grows_issued(2) [OF grows_main_verify_present [OF that]] .
  show ?thesis
    using a b c by (auto simp: no_mutating)
qed

theorem verify_read_only_witness:
  "zone_map_file (fresh (Some one_zone) offline) \<noteq> None
   \<and> zone_map_file (after (main (Some ''cf-token'') (Some ''ds-token'') (Some ''verify''))
        (fresh (Some one_zone) offline)) = Some one_zone
   \<and> filter mutating (issued (main (Some ''cf-token'') (Some ''ds-token'') (Some ''verify''))
        (fresh (Some one_zone) offline)) = []"
  using verify_read_only [where s = "fresh (Some one_zone) offline"
      and ?t1.0 = "Some ''cf-token''" and ?t2.0 = "Some ''ds-token''"]
  by (simp add: fresh_def)

text \<open>
  The claim as first stated fails on the state: started without a state file, the
  \<^verbatim>\<open>verify\<close> entry creates one.
\<close>

theorem verify_creates_state_file:
  "zone_map_file (fresh None offline) = None
   \<and> zone_map_file (after (main (Some ''cf-token'') (Some ''ds-token'') (Some ''verify''))
        (fresh None offline)) = Some (JObj [])
   \<and> fst (main (Some ''cf-token'') (Some ''ds-token'') (Some ''verify'') (fresh None offline))
       = Inl 1"
  by (simp add: main_def unset_or_empty_def dispatch_def load_zone_ids_def fetch_zone_def
      local_outside_function_def DOMAINS_def shell_defs sample_defs)

subsection \<open>The entry point\<close>

text \<open>
  C9, as amended. With both tokens exported: a missing argument and an empty one select
  \<open>all\<close>; each of the seven step names selects its step; any other non-empty argument
  prints the usage line and ends the script with status 1, before any request.
\<close>

theorem cli_dispatch:
  assumes "\<not> unset_or_empty t1" and "\<not> unset_or_empty t2"
  shows "main t1 t2 None = run_all
       \<and> main t1 t2 (Some []) = run_all
       \<and> main t1 t2 (Some ''all'') = run_all
       \<and> main t1 t2 (Some ''add-zones'') = thn validate_tokens (\<lambda>_. step_add_zones)
       \<and> main t1 t2 (Some ''create-records'') = thn validate_tokens (\<lambda>_. step_create_records)
       \<and> main t1 t2 (Some ''create-redirects'') = thn validate_tokens (\<lambda>_. step_create_redirects)
       \<and> main t1 t2 (Some ''switch-ns'') = thn validate_tokens (\<lambda>_. step_switch_nameservers)
       \<and> main t1 t2 (Some ''verify'')
           = thn load_zone_ids (\<lambda>_. thn validate_tokens (\<lambda>_. step_verify))
       \<and> main t1 t2 (Some ''unlock'') = thn validate_tokens (\<lambda>_. step_unlock_domains)
       \<and> (a \<noteq> [] \<and> a \<notin> set step_names \<longrightarrow>
            main t1 t2 (Some a) s = (Inl 1, s\<lparr>printed := printed s @ [Echo usage]\<rparr>))"
  using assms
  by (simp add: main_with_tokens dispatch_def step_names_def thn_def echo_def say_def
      exit_with_def)

theorem cli_dispatch_witness:
  "\<not> unset_or_empty (Some ''cf-token'') \<and> \<not> unset_or_empty (Some ''ds-token'')
   \<and> ''help'' \<noteq> [] \<and> ''help'' \<notin> set step_names
   \<and> main (Some ''cf-token'') (Some ''ds-token'') (Some ''help'') (fresh None offline)
       = (Inl 1, (fresh None offline)\<lparr>printed := [Echo usage]\<rparr>)
   \<and> main (Some ''cf-token'') (Some ''ds-token'') None = run_all"
proof -
  have t: "\<not> unset_or_empty (Some ''cf-token'')" "\<not> unset_or_empty (Some ''ds-token'')"
    by (simp_all add: unset_or_empty_def)
  have h: "''help'' \<noteq> [] \<and> ''help'' \<notin> set step_names"
    by (simp add: step_names_def)
  show ?thesis
    using cli_dispatch [OF t, where a = "''help''" and s = "fresh None offline"] t h
    by (simp add: fresh_def)
qed

text \<open>
  The claim as first stated fails at the empty argument: it is none of the seven names,
  yet the script runs \<open>all\<close> (here up to the first token check, which fails without
  network) and prints no usage line.
\<close>

theorem empty_argument_runs_all:
  "[] \<notin> set step_names
   \<and> main (Some ''cf-token'') (Some ''ds-token'') (Some []) (fresh None offline)
       = run_all (fresh None offline)
   \<and> issued (main (Some ''cf-token'') (Some ''ds-token'') (Some [])) (fresh None offline)
       = [Curl ''GET'' (CF_API @ ''/user/tokens/verify'') None]
   \<and> main (Some ''cf-token'') (Some ''ds-token'') (Some []) (fresh None offline)
       \<noteq> (Inl 1, (fresh None offline)\<lparr>printed := [Echo usage]\<rparr>)"
proof -
  have m: "main (Some ''cf-token'') (Some ''ds-token'') (Some []) = run_all"
    by (simp add: main_def unset_or_empty_def dispatch_def)
  have r: "requests (snd (run_all (fresh None offline)))
      = [Curl ''GET'' (CF_API @ ''/user/tokens/verify'') None]"
    by (simp add: run_all_def validate_tokens_def or_failed_def shell_defs jq_defs sample_defs)
  have "run_all (fresh None offline) \<noteq> (Inl 1, (fresh None offline)\<lparr>printed := [Echo usage]\<rparr>)"
  proof
    assume "run_all (fresh None offline) = (Inl 1, (fresh None offline)\<lparr>printed := [Echo usage]\<rparr>)"
    then have "requests (snd (run_all (fresh None offline))) = []"
      by (simp add: fresh_def)
    with r show False by simp
  qed
  then show ?thesis
    using m r by (simp add: step_names_def issued_def after_def fresh_def)
qed

end
